theory Spec2Isabelle
  imports Main
begin

section \<open>Atomic swaps over a layer-2 ledger: the client side and the transaction plan\<close>

text \<open>
  This theory embeds \<^verbatim>\<open>src/client.ts\<close> (class \<^verbatim>\<open>SwapClient\<close>) and the functions
  \<^verbatim>\<open>transpose\<close>, \<^verbatim>\<open>getSignBytes\<close> and \<^verbatim>\<open>getTransactions\<close> of \<^verbatim>\<open>src/utils.ts\<close>.

  Conventions of the embedding:
  \<^item> a thrown exception is \<open>Inl e\<close>; a method of the party returns its result together
    with the party object and the outside world as they are when the method returns or
    throws, because an assignment to \<^verbatim>\<open>this\<close> made before a \<^verbatim>\<open>throw\<close> stays;
  \<^item> a JavaScript value that may be \<^verbatim>\<open>undefined\<close> is an \<open>option\<close>; reading a property of
    \<^verbatim>\<open>undefined\<close> is the error \<open>TypeError\<close>;
  \<^item> \<^verbatim>\<open>BigNumber\<close> amounts, fees, timestamps (seconds) and \<^verbatim>\<open>Date.now()\<close>
    (milliseconds) are \<open>int\<close>;
  \<^item> whatever is imported from outside the two source files (the ledger provider, the
    wallet, the MuSig signer, \<^verbatim>\<open>ethers\<close> and \<^verbatim>\<open>zksync\<close> helpers, the base class
    \<^verbatim>\<open>SwapParty\<close>) is a field of the records \<open>Provider\<close> and \<open>Env\<close>: a parameter
    of the definitions, about which nothing is assumed. The three exceptions
    (\<open>bn_gt\<close>, \<open>js_replace\<close>, \<open>formatTx\<close>) say so where they are defined.
\<close>

subsection \<open>Errors and JavaScript array reads\<close>

datatype error = Error string | TypeError string

definition bindE :: "error + 'a \<Rightarrow> ('a \<Rightarrow> error + 'b) \<Rightarrow> error + 'b" where
  "bindE r f = (case r of Inl e \<Rightarrow> Inl e | Inr x \<Rightarrow> f x)"

text \<open>\<^verbatim>\<open>xs[i]\<close>: out of range, JavaScript yields \<^verbatim>\<open>undefined\<close>.\<close>

definition js_index :: "'a option list \<Rightarrow> nat \<Rightarrow> 'a option" where
  "js_index xs i = (if i < length xs then xs ! i else None)"

definition js_get :: "'a list \<Rightarrow> nat \<Rightarrow> 'a option" where
  "js_get xs i = (if i < length xs then Some (xs ! i) else None)"

subsection \<open>\<^verbatim>\<open>transpose\<close> (utils.ts)\<close>

text \<open>
  \<^verbatim>\<open>return matrix[0].map((_, index) => matrix.map((row) => row[index]));\<close>

  The entries of a row are JavaScript values, so they may be \<^verbatim>\<open>undefined\<close> (\<open>None\<close>);
  a row shorter than row 0 contributes \<^verbatim>\<open>undefined\<close>. With no row 0,
  \<^verbatim>\<open>matrix[0].map\<close> throws a TypeError.
\<close>

definition transpose_js :: "'a option list list \<Rightarrow> error + 'a option list list" where
  "transpose_js matrix =
     (case matrix of
        [] \<Rightarrow> Inl (TypeError ''Cannot read properties of undefined (reading 'map')'')
      | row0 # _ \<Rightarrow>
          Inr (map (\<lambda>index. map (\<lambda>row. js_index row index) matrix) [0..<length row0]))"

definition rectangular :: "'a list list \<Rightarrow> nat \<Rightarrow> bool" where
  "rectangular M n = list_all (\<lambda>row. length row = n) M"

subsection \<open>Data: swap terms, transactions, ledger accounts\<close>

type_synonym address = string
type_synonym token = string
type_synonym bytes = "nat list"

text \<open>
  \<^verbatim>\<open>SwapData\<close> (types.ts is not among the sources; the shape is the one the test
  builds): \<^verbatim>\<open>{sell: {token, amount}, buy: {token, amount}, timeout, withdrawType?,
  create2: {creator, salt, hash}}\<close>.
\<close>

record TokenAmount =
  token :: token
  amount :: int

record Create2Data =
  creator :: address
  salt :: string
  hash :: string

record SwapData =
  sell :: TokenAmount
  buy :: TokenAmount
  timeout :: int
  withdrawType :: "string option"
  create2 :: Create2Data

text \<open>
  The argument \<^verbatim>\<open>{creatorAddress, saltArg, codeHash}\<close> of
  \<^verbatim>\<open>zksync.utils.getCREATE2AddressAndSalt\<close>; the \<^verbatim>\<open>ethAuthData\<close> of a ChangePubKey
  carries the same three fields and a \<^verbatim>\<open>type\<close>.
\<close>

record Create2Args =
  creatorAddress :: address
  saltArg :: string
  codeHash :: string

record EthAuthData = Create2Args +
  auth_type :: string

text \<open>
  A transaction is a JavaScript object (\<^verbatim>\<open>any\<close>). The seven properties that all three
  object literals of \<^verbatim>\<open>getTransactions\<close> have are plain fields; a property that only
  some of them have is an \<open>option\<close>, \<open>None\<close> where the object has no such property.
  \<open>from_addr\<close>, \<open>to_addr\<close> and \<open>tx_amount\<close> are the properties \<^verbatim>\<open>from\<close>, \<^verbatim>\<open>to\<close> and
  \<^verbatim>\<open>amount\<close>; \<open>tx_signature\<close> is the signature (with the aggregate public key) that
  \<^verbatim>\<open>formatTx\<close> attaches.
\<close>

record Tx =
  tx_type :: string
  accountId :: nat
  nonce :: nat
  fee :: int
  feeTokenId :: nat
  validFrom :: int
  validUntil :: int
  account :: "address option"
  newPkHash :: "string option"
  ethAuthData :: "EthAuthData option"
  tokenId :: "nat option"
  from_addr :: "address option"
  to_addr :: "address option"
  ethAddress :: "address option"
  tx_amount :: "int option"
  tx_signature :: "(bytes \<times> bytes) option"

text \<open>
  What \<^verbatim>\<open>syncProvider.getState(address)\<close> resolves to: \<^verbatim>\<open>id\<close> (absent until the ledger
  has assigned one), \<^verbatim>\<open>address\<close> and \<^verbatim>\<open>committed.balances\<close>, an object indexed by token
  (the test reads it as \<^verbatim>\<open>state.committed.balances[token] || '0'\<close>: a token may have
  no entry).
\<close>

record AccountState =
  account_id :: "nat option"
  address :: address
  committed_balances :: "token \<Rightarrow> int option"

text \<open>The first argument of \<^verbatim>\<open>getTransactionFee\<close>: a name, or
  \<^verbatim>\<open>{ChangePubKey: {onchainPubkeyAuth: b}}\<close>.\<close>

datatype TxFeeType = NamedFee string | ChangePubKeyFee bool

subsection \<open>The ledger provider and the libraries, as parameters\<close>

text \<open>
  \<open>'w\<close> is the state of the world outside the party (the ledger). A query of the
  provider (\<^verbatim>\<open>getTransactionFee\<close>, \<^verbatim>\<open>getState\<close>, \<^verbatim>\<open>tokenSet.resolveTokenId\<close>) reads it
  and may be rejected; nothing is assumed about the answers. \<^verbatim>\<open>getState\<close> may be handed
  \<^verbatim>\<open>undefined\<close> for an address. \<open>MAX_TIMESTAMP\<close> is the constant
  \<^verbatim>\<open>zksync.utils.MAX_TIMESTAMP\<close> and \<open>hexlify\<close> is \<^verbatim>\<open>utils.hexlify\<close> of ethers.
\<close>

record 'w Provider =
  MAX_TIMESTAMP :: int
  hexlify :: "bytes \<Rightarrow> string"
  getTransactionFee :: "'w \<Rightarrow> TxFeeType \<Rightarrow> address \<Rightarrow> token \<Rightarrow> error + int"
  getState :: "'w \<Rightarrow> address option \<Rightarrow> error + AccountState"
  resolveTokenId :: "'w \<Rightarrow> token \<Rightarrow> error + nat"

subsection \<open>\<^verbatim>\<open>getTransactions\<close> (utils.ts)\<close>

text \<open>
  \<^verbatim>\<open>if (!swapAccount.id) throw ...\<close>: an absent id and the id 0 are both falsy.
\<close>

definition getTransactions ::
  "('w, 'z) Provider_scheme \<Rightarrow> 'w \<Rightarrow> SwapData \<Rightarrow> address \<Rightarrow> address \<Rightarrow> address \<Rightarrow> bytes
     \<Rightarrow> error + Tx list" where
  "getTransactions syncProvider w swapData clientAddress providerAddress swapAddress pubKeyHash =
     bindE (getTransactionFee syncProvider w (NamedFee ''Transfer'') providerAddress (token (sell swapData)))
       (\<lambda>transferSold.
     bindE (getTransactionFee syncProvider w (NamedFee ''Transfer'') providerAddress (token (buy swapData)))
       (\<lambda>transferBought.
     bindE (getTransactionFee syncProvider w (ChangePubKeyFee False) providerAddress (token (sell swapData)))
       (\<lambda>changePubKey.
     bindE (getTransactionFee syncProvider w (NamedFee ''Withdraw'') providerAddress (token (sell swapData)))
       (\<lambda>withdraw.
     bindE (getState syncProvider w (Some swapAddress))
       (\<lambda>swapAccount.
     case account_id swapAccount of
       None \<Rightarrow> Inl (Error ''Swap Account ID not set - can't sign transactions'')
     | Some swapAccount_id \<Rightarrow>
     if swapAccount_id = 0 then Inl (Error ''Swap Account ID not set - can't sign transactions'')
     else
     bindE (resolveTokenId syncProvider w (token (buy swapData)))
       (\<lambda>buyTokenId.
     bindE (resolveTokenId syncProvider w (token (sell swapData)))
       (\<lambda>sellTokenId.
     Inr [
      \<lparr> tx_type = ''ChangePubKey'',
        accountId = swapAccount_id,
        nonce = 0,
        fee = changePubKey,
        feeTokenId = sellTokenId,
        validFrom = 0,
        validUntil = MAX_TIMESTAMP syncProvider,
        account = Some (address swapAccount),
        newPkHash = Some (''sync:'' @ drop 2 (hexlify syncProvider pubKeyHash)),
        ethAuthData = Some \<lparr> creatorAddress = clientAddress,
                              saltArg = salt (create2 swapData),
                              codeHash = hash (create2 swapData),
                              auth_type = ''CREATE2'' \<rparr>,
        tokenId = None, from_addr = None, to_addr = None, ethAddress = None,
        tx_amount = None, tx_signature = None \<rparr>,

      \<lparr> tx_type = ''Transfer'',
        accountId = swapAccount_id,
        nonce = 1,
        fee = transferBought,
        feeTokenId = buyTokenId,
        validFrom = 0,
        validUntil = timeout swapData,
        account = None, newPkHash = None, ethAuthData = None,
        tokenId = Some buyTokenId,
        from_addr = Some (address swapAccount),
        to_addr = Some clientAddress,
        ethAddress = None,
        tx_amount = Some (amount (buy swapData)),
        tx_signature = None \<rparr>,

      (if withdrawType swapData = Some ''L1'' then
      \<lparr> tx_type = ''Withdraw'',
        accountId = swapAccount_id,
        nonce = 2,
        fee = withdraw,
        feeTokenId = sellTokenId,
        validFrom = 0,
        validUntil = MAX_TIMESTAMP syncProvider,
        account = None, newPkHash = None, ethAuthData = None,
        tokenId = Some sellTokenId,
        from_addr = Some (address swapAccount),
        to_addr = None,
        ethAddress = Some providerAddress,
        tx_amount = Some (amount (sell swapData)),
        tx_signature = None \<rparr>
      else
      \<lparr> tx_type = ''Transfer'',
        accountId = swapAccount_id,
        nonce = 2,
        fee = transferSold,
        feeTokenId = sellTokenId,
        validFrom = 0,
        validUntil = MAX_TIMESTAMP syncProvider,
        account = None, newPkHash = None, ethAuthData = None,
        tokenId = Some sellTokenId,
        from_addr = Some (address swapAccount),
        to_addr = Some providerAddress,
        ethAddress = None,
        tx_amount = Some (amount (sell swapData)),
        tx_signature = None \<rparr>),

      \<lparr> tx_type = ''Transfer'',
        accountId = swapAccount_id,
        nonce = 1,
        fee = transferSold,
        feeTokenId = sellTokenId,
        validFrom = timeout swapData + 1,
        validUntil = MAX_TIMESTAMP syncProvider,
        account = None, newPkHash = None, ethAuthData = None,
        tokenId = Some sellTokenId,
        from_addr = Some (address swapAccount),
        to_addr = Some clientAddress,
        ethAddress = None,
        tx_amount = Some (amount (sell swapData)),
        tx_signature = None \<rparr>,

      \<lparr> tx_type = ''Transfer'',
        accountId = swapAccount_id,
        nonce = 2,
        fee = transferBought,
        feeTokenId = buyTokenId,
        validFrom = timeout swapData + 1,
        validUntil = MAX_TIMESTAMP syncProvider,
        account = None, newPkHash = None, ethAuthData = None,
        tokenId = Some buyTokenId,
        from_addr = Some (address swapAccount),
        to_addr = Some providerAddress,
        ethAddress = None,
        tx_amount = Some 0,
        tx_signature = None \<rparr>])))))))"

subsection \<open>The party object and the rest of the environment\<close>

datatype SwapState = Empty | Prepared | Signed | Deposited | Finalized

text \<open>What \<^verbatim>\<open>getCREATE2AddressAndSalt\<close> returns: \<^verbatim>\<open>{address, salt}\<close>.\<close>

record Create2Info =
  create2_address :: address
  create2_salt :: string

text \<open>
  The fields of \<^verbatim>\<open>this\<close> that \<^verbatim>\<open>SwapClient\<close> reads and writes. A field that no
  method has assigned yet is \<^verbatim>\<open>undefined\<close>. \<open>'sg\<close> is the state of the MuSig signer
  object; \<open>walletAddress\<close> is \<^verbatim>\<open>this.syncWallet.address()\<close>.
\<close>

record 'sg SwapParty =
  state :: SwapState
  swapData :: "SwapData option"
  transactions :: "Tx list option"
  signer :: "'sg option"
  commitments :: "bytes list option"
  pubKeyHash :: "bytes option"
  create2Info :: "Create2Info option"
  privateKey :: string
  publicKey :: string
  walletAddress :: address

text \<open>
  A value that \<^verbatim>\<open>Promise.race\<close> in \<^verbatim>\<open>wait\<close> can yield, and the three ways the race
  can end: the notification resolves first (with a value), it is rejected first, or the
  timer resolves first (with \<^verbatim>\<open>null\<close>). Which one happens is decided outside the
  program.
\<close>

datatype JsValue = JsNull | JsUndefined | JsObject

datatype RaceResult = EventFirst JsValue | EventFailed error | TimerFirst

text \<open>
  The environment: the provider above, and
  \<^item> the constants \<^verbatim>\<open>SYNC_TX_PREFIX\<close> and \<^verbatim>\<open>TOTAL_TRANSACTIONS\<close> of utils.ts, whose
    values are not among the sources;
  \<^item> \<^verbatim>\<open>utils.sha256\<close>, \<^verbatim>\<open>pubKeyHash\<close> of zksync-crypto,
    \<^verbatim>\<open>zksync.utils.getCREATE2AddressAndSalt\<close>;
  \<^item> \<open>notifyRace\<close>: how the race of \<^verbatim>\<open>notifyTransaction(hash, action)\<close> against a timer
    of the given number of milliseconds ends;
  \<^item> the operations that change the world, each returning the world it leaves behind
    also when it throws: \<^verbatim>\<open>syncWallet.syncTransfer\<close> followed by \<^verbatim>\<open>awaitReceipt\<close>, and
    the methods \<^verbatim>\<open>deposit\<close> and \<^verbatim>\<open>sendBatch\<close> of the base class; the caller's wallet
    address is their first argument after the world;
  \<^item> \<^verbatim>\<open>swapAddress()\<close> of the base class, a function of the party object;
  \<^item> the sign-bytes methods of \<^verbatim>\<open>zksync.Signer\<close>;
  \<^item> the MuSig signer: its constructor and its methods, which may throw and may change
    the signer object (when one throws, the signer is left as it was).
\<close>

record ('sg, 'w) Env = "'w Provider" +
  SYNC_TX_PREFIX :: string
  TOTAL_TRANSACTIONS :: nat
  sha256 :: "bytes \<Rightarrow> string"
  pubKeyHash_of :: "bytes \<Rightarrow> bytes"
  getCREATE2AddressAndSalt :: "string \<Rightarrow> Create2Args \<Rightarrow> Create2Info"
  notifyRace :: "'w \<Rightarrow> string \<Rightarrow> string \<Rightarrow> int \<Rightarrow> RaceResult"
  syncTransfer :: "'w \<Rightarrow> address \<Rightarrow> address \<Rightarrow> token \<Rightarrow> int \<Rightarrow> (error + unit) \<times> 'w"
  deposit :: "'w \<Rightarrow> address \<Rightarrow> token \<Rightarrow> int \<Rightarrow> string \<Rightarrow> bool \<Rightarrow> (error + string) \<times> 'w"
  sendBatch :: "'w \<Rightarrow> address \<Rightarrow> Tx option list \<Rightarrow> token \<Rightarrow> (error + string list) \<times> 'w"
  swapAddress :: "'sg SwapParty \<Rightarrow> error + address"
  transferSignBytes :: "Tx \<Rightarrow> string \<Rightarrow> bytes"
  withdrawSignBytes :: "Tx \<Rightarrow> string \<Rightarrow> bytes"
  changePubKeySignBytes :: "Tx \<Rightarrow> string \<Rightarrow> bytes"
  newMusigSigner :: "string list \<Rightarrow> nat \<Rightarrow> nat \<Rightarrow> 'sg"
  computePrecommitments :: "'sg \<Rightarrow> error + bytes list \<times> 'sg"
  receivePrecommitments :: "'sg \<Rightarrow> bytes option list list \<Rightarrow> error + bytes list \<times> 'sg"
  computePubkey :: "'sg \<Rightarrow> bytes"
  receiveCommitments :: "'sg \<Rightarrow> bytes option list list \<Rightarrow> error + 'sg"
  sign :: "'sg \<Rightarrow> string \<Rightarrow> bytes \<Rightarrow> nat \<Rightarrow> error + bytes \<times> 'sg"
  receiveSignatureShares :: "'sg \<Rightarrow> bytes option list \<Rightarrow> nat \<Rightarrow> error + bytes \<times> 'sg"
  verify :: "'sg \<Rightarrow> bytes \<Rightarrow> bytes \<Rightarrow> bool"

subsection \<open>Helpers of the libraries that the code relies on\<close>

text \<open>
  \<^verbatim>\<open>a.gt(b)\<close> of an ethers \<^verbatim>\<open>BigNumber\<close>: the operand goes through
  \<^verbatim>\<open>BigNumber.from\<close>, which throws on \<^verbatim>\<open>undefined\<close>.
\<close>

definition bn_gt :: "int \<Rightarrow> int option \<Rightarrow> error + bool" where
  "bn_gt a b = (case b of None \<Rightarrow> Inl (Error ''invalid BigNumber value'') | Some b' \<Rightarrow> Inr (a > b'))"

text \<open>
  \<^verbatim>\<open>s.replace(pat, rep)\<close> with a string pattern replaces the first occurrence only. The
  replacement is taken literally (JavaScript gives a dollar sign in it a special meaning).
\<close>

fun js_replace :: "string \<Rightarrow> string \<Rightarrow> string \<Rightarrow> string" where
  "js_replace pat rep [] = (if pat = [] then rep else [])"
| "js_replace pat rep (c # cs) =
     (if take (length pat) (c # cs) = pat then rep @ drop (length pat) (c # cs)
      else c # js_replace pat rep cs)"

subsection \<open>\<^verbatim>\<open>getSignBytes\<close> (utils.ts) and \<^verbatim>\<open>formatTx\<close>\<close>

text \<open>
  The argument may be \<^verbatim>\<open>undefined\<close> (an array read out of range), and then
  \<^verbatim>\<open>transaction.type\<close> throws. The method \<^verbatim>\<open>this.getSignBytes(tx)\<close> of the base class is
  taken to be this function applied to the wallet's signer.
\<close>

definition getSignBytes :: "('sg, 'w) Env \<Rightarrow> Tx option \<Rightarrow> error + bytes" where
  "getSignBytes E transaction =
     (case transaction of
        None \<Rightarrow> Inl (TypeError ''Cannot read properties of undefined (reading 'type')'')
      | Some tx \<Rightarrow>
          if tx_type tx = ''Transfer'' then Inr (transferSignBytes E tx ''contracts-4'')
          else if tx_type tx = ''Withdraw'' then Inr (withdrawSignBytes E tx ''contracts-4'')
          else if tx_type tx = ''ChangePubKey'' then Inr (changePubKeySignBytes E tx ''contracts-4'')
          else Inl (Error ''Invalid transaction type''))"

text \<open>
  Modelled from the spec: \<^verbatim>\<open>formatTx(tx, signature, pubkey)\<close> is imported from utils.ts
  but its body is not among the sources. The spec's data model says that a transaction
  descriptor carries, once signed, an attached signature and the aggregate public key;
  the call site discards the result, so the transaction object itself is changed.
\<close>

definition formatTx :: "Tx \<Rightarrow> bytes \<Rightarrow> bytes \<Rightarrow> Tx" where
  "formatTx tx signature pubkey = tx\<lparr>tx_signature := Some (signature, pubkey)\<rparr>"

subsection \<open>\<^verbatim>\<open>SwapClient\<close> (client.ts)\<close>

definition CLIENT_MUSIG_POSITION :: nat where
  "CLIENT_MUSIG_POSITION = 1"

definition loadSwap ::
  "('sg, 'w) Env \<Rightarrow> SwapData \<Rightarrow> Tx list \<Rightarrow> 'sg SwapParty \<Rightarrow> 'w
     \<Rightarrow> (error + unit) \<times> 'sg SwapParty \<times> 'w" where
  "loadSwap E swapData' signedTransactions this w =
     (if state this \<noteq> Empty
      then (Inl (Error ''In the middle of a swap - can't switch to a new one''), this, w)
      else
        let this1 = this\<lparr>swapData := Some swapData', transactions := Some signedTransactions\<rparr> in
        case js_get signedTransactions 0 of
          None \<Rightarrow> (Inl (TypeError ''Cannot read properties of undefined (reading 'account')''), this1, w)
        | Some tx0 \<Rightarrow>
        let swapAddress' = account tx0 in
        case getState E w swapAddress' of
          Inl e \<Rightarrow> (Inl e, this1, w)
        | Inr swapAccount \<Rightarrow>
        let balance = committed_balances swapAccount (token (sell swapData')) in
        case bn_gt (amount (sell swapData')) balance of
          Inl e \<Rightarrow> (Inl e, this1, w)
        | Inr is_gt \<Rightarrow>
            (Inr (), this1\<lparr>state := (if is_gt then Signed else Deposited)\<rparr>, w))"

definition signedTransactions_of :: "'sg SwapParty \<Rightarrow> error + Tx list option" where
  "signedTransactions_of this =
     (if state this \<noteq> Signed \<and> state this \<noteq> Deposited
      then Inl (Error ''Transactions are not signed yet'')
      else Inr (transactions this))"

text \<open>The argument that \<^verbatim>\<open>prepareSwap\<close> passes to \<^verbatim>\<open>getCREATE2AddressAndSalt\<close> (lines 66-70).\<close>

definition prepareSwap_create2Args :: "SwapData \<Rightarrow> Create2Args" where
  "prepareSwap_create2Args data =
     \<lparr> creatorAddress = creator (create2 data),
       saltArg = salt (create2 data),
       codeHash = hash (create2 data) \<rparr>"

definition prepareSwap ::
  "('sg, 'w) Env \<Rightarrow> SwapData \<Rightarrow> string \<Rightarrow> address \<Rightarrow> bytes list \<Rightarrow> 'sg SwapParty \<Rightarrow> 'w
     \<Rightarrow> (error + bytes list \<times> bytes list) \<times> 'sg SwapParty \<times> 'w" where
  "prepareSwap E data providerPubkey providerAddress providerPrecommitments this w =
     (if state this \<noteq> Empty
      then (Inl (Error ''In the middle of a swap - can't start a new one''), this, w)
      else
        let this1 = this\<lparr>swapData := Some data\<rparr>;
            sg0 = newMusigSigner E [providerPubkey, publicKey this] CLIENT_MUSIG_POSITION
                    (TOTAL_TRANSACTIONS E);
            this2 = this1\<lparr>signer := Some sg0\<rparr> in
        case computePrecommitments E sg0 of
          Inl e \<Rightarrow> (Inl e, this2, w)
        | Inr (precommitments, sg1) \<Rightarrow>
        let this3 = this2\<lparr>signer := Some sg1\<rparr> in
        case transpose_js [map Some providerPrecommitments, map Some precommitments] of
          Inl e \<Rightarrow> (Inl e, this3, w)
        | Inr matrix \<Rightarrow>
        case receivePrecommitments E sg1 matrix of
          Inl e \<Rightarrow> (Inl e, this3, w)
        | Inr (commitments', sg2) \<Rightarrow>
        let this4 = this3\<lparr>signer := Some sg2, commitments := Some commitments'\<rparr>;
            pubKeyHash' = pubKeyHash_of E (computePubkey E sg2);
            this5 = this4\<lparr>pubKeyHash := Some pubKeyHash'\<rparr>;
            create2Info' = getCREATE2AddressAndSalt E (hexlify E pubKeyHash')
                             (prepareSwap_create2Args data);
            this6 = this5\<lparr>create2Info := Some create2Info'\<rparr> in
        case getState E w (Some (create2_address create2Info')) of
          Inl e \<Rightarrow> (Inl e, this6, w)
        | Inr swapAccount \<Rightarrow>
        case (if account_id swapAccount = None \<or> account_id swapAccount = Some 0
              then syncTransfer E w (walletAddress this) (create2_address create2Info')
                     (token (sell data)) 0
              else (Inr (), w)) of
          (Inl e, w1) \<Rightarrow> (Inl e, this6, w1)
        | (Inr _, w1) \<Rightarrow>
        case getTransactions E w1 data (walletAddress this) providerAddress
               (create2_address create2Info') pubKeyHash' of
          Inl e \<Rightarrow> (Inl e, this6, w1)
        | Inr txs \<Rightarrow>
            (Inr (precommitments, commitments'),
             this6\<lparr>transactions := Some txs, state := Prepared\<rparr>, w1))"

text \<open>
  The \<^verbatim>\<open>forEach\<close> of \<^verbatim>\<open>signSwap\<close>, from index \<open>i\<close> on: the result, the signer and the
  transactions as they are when the loop ends or throws. \<^verbatim>\<open>formatTx\<close> changes the
  transaction objects of the array in place, so those already formatted stay formatted
  when a later iteration throws.
\<close>

fun signAll ::
  "('sg, 'w) Env \<Rightarrow> string \<Rightarrow> bytes \<Rightarrow> bytes list \<Rightarrow> nat \<Rightarrow> Tx list \<Rightarrow> 'sg \<Rightarrow> bytes list
     \<Rightarrow> (error + bytes list) \<times> 'sg \<times> Tx list" where
  "signAll E priv musigPubkey theirShares i [] sg shares = (Inr shares, sg, [])"
| "signAll E priv musigPubkey theirShares i (tx # rest) sg shares =
     (case getSignBytes E (Some tx) of
        Inl e \<Rightarrow> (Inl e, sg, tx # rest)
      | Inr bytes \<Rightarrow>
      case sign E sg priv bytes i of
        Inl e \<Rightarrow> (Inl e, sg, tx # rest)
      | Inr (share, sg1) \<Rightarrow>
      case receiveSignatureShares E sg1 [js_get theirShares i, Some share] i of
        Inl e \<Rightarrow> (Inl e, sg1, tx # rest)
      | Inr (signature, sg2) \<Rightarrow>
          if \<not> verify E sg2 bytes signature
          then (Inl (Error ''Provided signature shares are invalid''), sg2, tx # rest)
          else
            case signAll E priv musigPubkey theirShares (i + 1) rest sg2 (shares @ [share]) of
              (r, sg3, rest') \<Rightarrow> (r, sg3, formatTx tx signature musigPubkey # rest'))"

text \<open>
  \<^verbatim>\<open>signSwap(data)\<close> with \<^verbatim>\<open>data.commitments\<close> and \<^verbatim>\<open>data.shares\<close> as two arguments.
  With \<^verbatim>\<open>this.commitments\<close> undefined, \<^verbatim>\<open>transpose\<close> reads \<^verbatim>\<open>row[index]\<close> of
  \<^verbatim>\<open>undefined\<close> as soon as row 0 has an entry.
\<close>

definition signSwap ::
  "('sg, 'w) Env \<Rightarrow> bytes list \<Rightarrow> bytes list \<Rightarrow> 'sg SwapParty \<Rightarrow> 'w
     \<Rightarrow> (error + bytes list) \<times> 'sg SwapParty \<times> 'w" where
  "signSwap E data_commitments data_shares this w =
     (if state this \<noteq> Prepared
      then (Inl (Error ''Not prepared for the swap''), this, w)
      else
        case signer this of
          None \<Rightarrow> (Inl (TypeError ''Cannot read properties of undefined (reading 'receiveCommitments')''), this, w)
        | Some sg \<Rightarrow>
        case (case commitments this of
                Some own \<Rightarrow> transpose_js [map Some data_commitments, map Some own]
              | None \<Rightarrow> if data_commitments = [] then Inr []
                        else Inl (TypeError ''Cannot read properties of undefined'')) of
          Inl e \<Rightarrow> (Inl e, this, w)
        | Inr matrix \<Rightarrow>
        case receiveCommitments E sg matrix of
          Inl e \<Rightarrow> (Inl e, this, w)
        | Inr sg1 \<Rightarrow>
        let this1 = this\<lparr>signer := Some sg1\<rparr>;
            musigPubkey = computePubkey E sg1 in
        case transactions this of
          None \<Rightarrow> (Inl (TypeError ''Cannot read properties of undefined (reading 'forEach')''), this1, w)
        | Some txs \<Rightarrow>
        case signAll E (privateKey this) musigPubkey data_shares 0 txs sg1 [] of
          (Inl e, sg2, txs') \<Rightarrow> (Inl e, this1\<lparr>signer := Some sg2, transactions := Some txs'\<rparr>, w)
        | (Inr shares, sg2, txs') \<Rightarrow>
            (Inr shares,
             this1\<lparr>signer := Some sg2, transactions := Some txs', state := Signed\<rparr>, w))"

definition depositFunds ::
  "('sg, 'w) Env \<Rightarrow> string \<Rightarrow> bool \<Rightarrow> 'sg SwapParty \<Rightarrow> 'w
     \<Rightarrow> (error + string) \<times> 'sg SwapParty \<times> 'w" where
  "depositFunds E depositType autoApprove this w =
     (if state this \<noteq> Signed
      then (Inl (Error ''Not yet signed the transactions - can't deposit funds''), this, w)
      else
        case swapData this of
          None \<Rightarrow> (Inl (TypeError ''Cannot read properties of undefined (reading 'sell')''), this, w)
        | Some d \<Rightarrow>
        case deposit E w (walletAddress this) (token (sell d)) (amount (sell d)) depositType autoApprove of
          (Inl e, w1) \<Rightarrow> (Inl e, this, w1)
        | (Inr hash', w1) \<Rightarrow> (Inr hash', this\<lparr>state := Deposited\<rparr>, w1))"

text \<open>\<open>now\<close> is \<^verbatim>\<open>Date.now()\<close>, in milliseconds.\<close>

definition wait ::
  "('sg, 'w) Env \<Rightarrow> string \<Rightarrow> int \<Rightarrow> 'sg SwapParty \<Rightarrow> 'w
     \<Rightarrow> (error + bool) \<times> 'sg SwapParty \<times> 'w" where
  "wait E action now this w =
     (if state this \<noteq> Deposited
      then (Inl (Error ''No funds on the swap account - nothing to wait for''), this, w)
      else
        case transactions this of
          None \<Rightarrow> (Inl (TypeError ''Cannot read properties of undefined (reading '1')''), this, w)
        | Some txs \<Rightarrow>
        case getSignBytes E (js_get txs 1) of
          Inl e \<Rightarrow> (Inl e, this, w)
        | Inr bytes \<Rightarrow>
        let hash' = sha256 E bytes in
        case swapData this of
          None \<Rightarrow> (Inl (TypeError ''Cannot read properties of undefined (reading 'timeout')''), this, w)
        | Some d \<Rightarrow>
        let timeout' = timeout d * 1000 - now in
        case notifyRace E w (js_replace ''0x'' (SYNC_TX_PREFIX E) hash') action timeout' of
          EventFailed e \<Rightarrow> (Inl e, this, w)
        | raced \<Rightarrow>
        let result = (case raced of EventFirst v \<Rightarrow> v | _ \<Rightarrow> JsNull) in
        (Inr (result \<noteq> JsNull),
         (if result = JsObject then this\<lparr>state := Finalized\<rparr> else this), w))"

definition finalizeSwap ::
  "('sg, 'w) Env \<Rightarrow> 'sg SwapParty \<Rightarrow> 'w \<Rightarrow> (error + string list) \<times> 'sg SwapParty \<times> 'w" where
  "finalizeSwap E this w =
     (case swapAddress E this of
        Inl e \<Rightarrow> (Inl e, this, w)
      | Inr swapAddress' \<Rightarrow>
      case getState E w (Some swapAddress') of
        Inl e \<Rightarrow> (Inl e, this, w)
      | Inr swapAccount \<Rightarrow>
      case swapData this of
        None \<Rightarrow> (Inl (TypeError ''Cannot read properties of undefined (reading 'buy')''), this, w)
      | Some d \<Rightarrow>
      let balance = committed_balances swapAccount (token (buy d)) in
      if state this \<noteq> Deposited
      then (Inl (Error ''No funds on the swap account - nothing to finalize''), this, w)
      else
      case bn_gt (amount (buy d)) balance of
        Inl e \<Rightarrow> (Inl e, this, w)
      | Inr True \<Rightarrow> (Inl (Error ''No funds on the swap account - nothing to finalize''), this, w)
      | Inr False \<Rightarrow>
      case transactions this of
        None \<Rightarrow> (Inl (TypeError ''Cannot read properties of undefined (reading '0')''), this, w)
      | Some txs \<Rightarrow>
      case sendBatch E w (walletAddress this) [js_get txs 0] (token (sell d)) of
        (Inl e, w1) \<Rightarrow> (Inl e, this, w1)
      | (Inr _, w1) \<Rightarrow>
      case sendBatch E w1 (walletAddress this) [js_get txs 1] (token (sell d)) of
        (Inl e, w2) \<Rightarrow> (Inl e, this, w2)
      | (Inr hashes, w2) \<Rightarrow> (Inr hashes, this\<lparr>state := Finalized\<rparr>, w2))"

definition cancelSwap ::
  "('sg, 'w) Env \<Rightarrow> int \<Rightarrow> 'sg SwapParty \<Rightarrow> 'w \<Rightarrow> (error + string list) \<times> 'sg SwapParty \<times> 'w" where
  "cancelSwap E now this w =
     (case swapData this of
        None \<Rightarrow> (Inl (TypeError ''Cannot read properties of undefined (reading 'timeout')''), this, w)
      | Some d \<Rightarrow>
      if now < timeout d * 1000
      then (Inl (Error ''Too early to cancel the swap''), this, w)
      else if state this \<noteq> Deposited
      then (Inl (Error ''No funds on the swap account - nothing to cancel''), this, w)
      else
      case transactions this of
        None \<Rightarrow> (Inl (TypeError ''Cannot read properties of undefined (reading '0')''), this, w)
      | Some txs \<Rightarrow>
      case sendBatch E w (walletAddress this) [js_get txs 0] (token (sell d)) of
        (Inl e, w1) \<Rightarrow> (Inl e, this, w1)
      | (Inr _, w1) \<Rightarrow>
      case sendBatch E w1 (walletAddress this) [js_get txs 3] (token (sell d)) of
        (Inl e, w2) \<Rightarrow> (Inl e, this, w2)
      | (Inr hashes, w2) \<Rightarrow> (Inr hashes, this\<lparr>state := Finalized\<rparr>, w2))"

subsection \<open>A ledger that tracks nonces and validity windows\<close>

text \<open>
  The ledger is outside the repository; this is the mock nonce tracker that the
  exclusivity property of the plan is stated against. It remembers, per account, the
  nonces already consumed, and the transactions it has accepted. A transaction \<open>tx\<close>
  submitted at time \<open>now\<close> is accepted if the nonce of \<open>tx\<close> has not been consumed for its
  account and \<open>now\<close> lies in \<open>[validFrom, validUntil]\<close>: that is the one step of the
  ledger. No order of nonces or of times is imposed, so every ledger that enforces these
  two conditions (and possibly more) accepts no more than this one.
\<close>

record Ledger =
  consumed :: "(nat \<times> nat) list"
  accepted :: "Tx list"

definition ledger_accepts :: "Ledger \<Rightarrow> Tx \<Rightarrow> int \<Rightarrow> bool" where
  "ledger_accepts L tx now =
     ((accountId tx, nonce tx) \<notin> set (consumed L) \<and> validFrom tx \<le> now \<and> now \<le> validUntil tx)"

definition ledger_submit :: "Ledger \<Rightarrow> Tx \<times> int \<Rightarrow> Ledger" where
  "ledger_submit L sub =
     (case sub of (tx, now) \<Rightarrow>
        if ledger_accepts L tx now
        then L\<lparr>consumed := (accountId tx, nonce tx) # consumed L, accepted := accepted L @ [tx]\<rparr>
        else L)"

inductive ledger_step :: "Ledger \<Rightarrow> Tx \<Rightarrow> int \<Rightarrow> Ledger \<Rightarrow> bool" where
  accept: "ledger_accepts L tx now \<Longrightarrow>
     ledger_step L tx now
       (L\<lparr>consumed := (accountId tx, nonce tx) # consumed L, accepted := accepted L @ [tx]\<rparr>)"

code_pred ledger_step .

definition fresh_ledger :: Ledger where
  "fresh_ledger = \<lparr>consumed = [], accepted = []\<rparr>"

text \<open>The ledger states that can be reached from the fresh ledger, by any steps.\<close>

inductive reachable :: "Ledger \<Rightarrow> bool" where
  fresh: "reachable fresh_ledger"
| step: "reachable L \<Longrightarrow> ledger_step L tx now L' \<Longrightarrow> reachable L'"

text \<open>
  The same as a function: the ledger after a sequence of submissions, in order, where a
  submission that is not accepted leaves the ledger as it is.
\<close>

definition ledger_run :: "(Tx \<times> int) list \<Rightarrow> Ledger" where
  "ledger_run subs = foldl ledger_submit fresh_ledger subs"

subsection \<open>A test double of the environment\<close>

text \<open>
  A concrete environment on which the definitions can be run. Its world is the log of the
  batches sent so far. A signature share of the double is the signed message itself, the
  combined signature is the concatenation of the two shares, and a signature is valid for
  a message \<open>m\<close> if it is \<open>m @ m\<close>.
\<close>

definition testE :: "(nat, Tx option list list) Env" where
  "testE =
     \<lparr> MAX_TIMESTAMP = 4294967295,
       hexlify = (\<lambda>bs. ''0x0909''),
       getTransactionFee = (\<lambda>w ty a t.
         Inr (case ty of NamedFee n \<Rightarrow> if n = ''Withdraw'' then 30 else 10 | ChangePubKeyFee _ \<Rightarrow> 20)),
       getState = (\<lambda>w a.
         Inr \<lparr> account_id = Some 7,
               address = (case a of Some x \<Rightarrow> x | None \<Rightarrow> ''0x0''),
               committed_balances = [''DAI'' \<mapsto> 1000, ''ETH'' \<mapsto> 1] \<rparr>),
       resolveTokenId = (\<lambda>w t.
         if t = ''ETH'' then Inr 0 else if t = ''DAI'' then Inr 1
         else Inl (Error ''Token is not supported'')),
       SYNC_TX_PREFIX = ''sync-tx:'',
       TOTAL_TRANSACTIONS = 5,
       sha256 = (\<lambda>bs. ''0x00ff''),
       pubKeyHash_of = (\<lambda>bs. bs),
       getCREATE2AddressAndSalt = (\<lambda>pkh args.
         \<lparr> create2_address = ''0xEscrow'', create2_salt = saltArg args \<rparr>),
       notifyRace = (\<lambda>w h action ms. if 0 < ms then EventFirst JsObject else TimerFirst),
       syncTransfer = (\<lambda>w sender recipient t a. (Inr (), w)),
       deposit = (\<lambda>w sender t a ty approve. (Inr ''0xdeposit'', w)),
       sendBatch = (\<lambda>w sender txs t. (Inr [''0xbatch''], w @ [txs])),
       swapAddress = (\<lambda>p. case create2Info p of
                              None \<Rightarrow> Inl (Error ''No active swaps present'')
                            | Some info \<Rightarrow> Inr (create2_address info)),
       transferSignBytes = (\<lambda>tx v. [nonce tx]),
       withdrawSignBytes = (\<lambda>tx v. [nonce tx]),
       changePubKeySignBytes = (\<lambda>tx v. [nonce tx]),
       newMusigSigner = (\<lambda>keys position n. 0),
       computePrecommitments = (\<lambda>sg. Inr (replicate 5 [1], sg + 1)),
       receivePrecommitments = (\<lambda>sg m. Inr (replicate 5 [2], sg + 1)),
       computePubkey = (\<lambda>sg. [9]),
       receiveCommitments = (\<lambda>sg m. Inr (sg + 1)),
       sign = (\<lambda>sg priv bytes i. Inr (bytes, sg + 1)),
       receiveSignatureShares = (\<lambda>sg shares i.
         Inr (concat (map (\<lambda>s. case s of None \<Rightarrow> [] | Some x \<Rightarrow> x) shares), sg + 1)),
       verify = (\<lambda>sg bytes s. s = bytes @ bytes) \<rparr>"

text \<open>The swap terms of the repository's test, scaled down; \<^verbatim>\<open>withdrawType\<close> is not set
  there. The creator of the escrow contract is the deployer contract, not the client.\<close>

definition testData :: SwapData where
  "testData =
     \<lparr> sell = \<lparr>token = ''ETH'', amount = 1\<rparr>,
       buy = \<lparr>token = ''DAI'', amount = 1000\<rparr>,
       timeout = 600,
       withdrawType = None,
       create2 = \<lparr>creator = ''0xDeployer'', salt = ''0xSalt'', hash = ''0xCodeHash''\<rparr> \<rparr>"

definition testPlan :: "Tx list" where
  "testPlan =
     (case getTransactions testE [] testData ''0xClient'' ''0xProvider'' ''0xEscrow'' [9] of
        Inl e \<Rightarrow> []
      | Inr plan \<Rightarrow> plan)"

definition testParty :: "SwapState \<Rightarrow> Tx list option \<Rightarrow> nat SwapParty" where
  "testParty st txs =
     \<lparr> state = st,
       swapData = Some testData,
       transactions = txs,
       signer = Some 0,
       commitments = Some (replicate 5 [2]),
       pubKeyHash = Some [9],
       create2Info = Some \<lparr>create2_address = ''0xEscrow'', create2_salt = ''0xSalt''\<rparr>,
       privateKey = ''0xClientKey'',
       publicKey = ''0xClientPub'',
       walletAddress = ''0xClient'' \<rparr>"

text \<open>
  The same environment with an escrow account into which nothing has been deposited yet:
  the ledger knows the account, and its committed balances have no entry for any token.
\<close>

definition testE_noDeposit :: "(nat, Tx option list list) Env" where
  "testE_noDeposit =
     testE\<lparr> getState := (\<lambda>w a.
       Inr \<lparr> account_id = Some 7,
             address = (case a of Some x \<Rightarrow> x | None \<Rightarrow> ''0x0''),
             committed_balances = Map.empty \<rparr>) \<rparr>"

subsection \<open>The invariant of the ledger\<close>

definition nonce_key :: "Tx \<Rightarrow> nat \<times> nat" where
  "nonce_key tx = (accountId tx, nonce tx)"

text \<open>
  No two accepted transactions share an account and a nonce, the nonce of every accepted
  transaction is recorded as consumed, and every accepted transaction has a validity
  window that is not empty.
\<close>

definition ledger_inv :: "Ledger \<Rightarrow> bool" where
  "ledger_inv L =
     (distinct (map nonce_key (accepted L))
      \<and> set (map nonce_key (accepted L)) \<subseteq> set (consumed L)
      \<and> list_all (\<lambda>tx. validFrom tx \<le> validUntil tx) (accepted L))"

section \<open>Properties\<close>

subsection \<open>Transposition\<close>

lemma transpose_js_Cons:
  "transpose_js (r # M) =
     Inr (map (\<lambda>index. map (\<lambda>row. js_index row index) (r # M)) [0..<length r])"
  by (simp add: transpose_js_def)

lemma transpose_js_rows:
  assumes "M \<noteq> []" and "rectangular M n"
  shows "transpose_js M = Inr (map (\<lambda>i. map (\<lambda>row. row ! i) M) [0..<n])"
proof -
  from assms(1) obtain r M' where M: "M = r # M'" by (cases M) auto
  with assms(2) have len: "\<forall>row \<in> set M. length row = n" and r: "length r = n"
    by (auto simp: rectangular_def list_all_iff)
  have "map (\<lambda>index. map (\<lambda>row. js_index row index) M) [0..<n]
          = map (\<lambda>i. map (\<lambda>row. row ! i) M) [0..<n]"
    using len by (auto simp: js_index_def)
  then show ?thesis using M r by (simp add: transpose_js_Cons)
qed

lemma rectangular_transposed:
  "rectangular (map (\<lambda>i. map (\<lambda>row. row ! i) M) [0..<n]) (length M)"
  by (simp add: rectangular_def list_all_iff)

lemma transposed_twice:
  assumes "rectangular M n"
  shows "map (\<lambda>j. map (\<lambda>row. row ! j) (map (\<lambda>i. map (\<lambda>row. row ! i) M) [0..<n])) [0..<length M] = M"
proof (rule nth_equalityI)
  show "length (map (\<lambda>j. map (\<lambda>row. row ! j) (map (\<lambda>i. map (\<lambda>row. row ! i) M) [0..<n])) [0..<length M])
          = length M"
    by simp
next
  fix j
  assume "j < length (map (\<lambda>j. map (\<lambda>row. row ! j) (map (\<lambda>i. map (\<lambda>row. row ! i) M) [0..<n])) [0..<length M])"
  then have j: "j < length M" by simp
  with assms have lj: "length (M ! j) = n"
    by (simp add: rectangular_def list_all_length)
  have "map (\<lambda>row. row ! j) (map (\<lambda>i. map (\<lambda>row. row ! i) M) [0..<n]) = M ! j"
    using j lj by (intro nth_equalityI) auto
  then show "map (\<lambda>j. map (\<lambda>row. row ! j) (map (\<lambda>i. map (\<lambda>row. row ! i) M) [0..<n])) [0..<length M] ! j
               = M ! j"
    using j by simp
qed

lemma has_entry_rows_columns:
  assumes "rectangular M n" and "concat M \<noteq> []"
  shows "M \<noteq> []" and "0 < n"
proof -
  from assms(2) show "M \<noteq> []" by auto
  from assms(2) obtain row where "row \<in> set M" and "row \<noteq> []" by auto
  with assms(1) show "0 < n" by (auto simp: rectangular_def list_all_iff)
qed

text \<open>
  C10. For a rectangular matrix \<open>M\<close> (a list of rows that all have the same length \<open>n\<close>)
  that is not empty, that is, has an entry: \<open>transpose\<close> returns a matrix with as many
  rows as \<open>M\<close> has columns, its entry \<open>[i][j]\<close> is the entry \<open>[j][i]\<close> of \<open>M\<close>, transposing
  the result gives \<open>M\<close> back, and for two rows \<open>A\<close>, \<open>B\<close> row \<open>i\<close> of the result is
  \<open>[A[i], B[i]]\<close>.
\<close>

theorem transpose_js_rectangular:
  assumes "rectangular M n" and "concat M \<noteq> []"
  shows "\<exists>T. transpose_js M = Inr T
           \<and> length T = n
           \<and> (\<forall>i < n. \<forall>j < length M. T ! i ! j = M ! j ! i)
           \<and> transpose_js T = Inr M
           \<and> (\<forall>A B. M = [A, B] \<longrightarrow> (\<forall>i < n. T ! i = [A ! i, B ! i]))"
proof -
  let ?T = "map (\<lambda>i. map (\<lambda>row. row ! i) M) [0..<n]"
  note ne = has_entry_rows_columns [OF assms]
  have T: "transpose_js M = Inr ?T"
    using ne(1) assms(1) by (rule transpose_js_rows)
  have "?T \<noteq> []" using ne(2) by simp
  then have "transpose_js ?T = Inr (map (\<lambda>j. map (\<lambda>row. row ! j) ?T) [0..<length M])"
    using rectangular_transposed by (rule transpose_js_rows)
  then have twice: "transpose_js ?T = Inr M"
    using transposed_twice [OF assms(1)] by simp
  have entries: "\<forall>i < n. \<forall>j < length M. ?T ! i ! j = M ! j ! i" by simp
  have two: "\<forall>A B. M = [A, B] \<longrightarrow> (\<forall>i < n. ?T ! i = [A ! i, B ! i])" by simp
  from T twice entries two show ?thesis by (intro exI [of _ ?T]) simp
qed

theorem transpose_js_rectangular_witness:
  "\<exists>T. transpose_js [[Some (1::nat), Some 2, Some 3], [Some 4, Some 5, Some 6]] = Inr T
     \<and> length T = 3
     \<and> T ! 2 = [Some 3, Some 6]
     \<and> transpose_js T = Inr [[Some 1, Some 2, Some 3], [Some 4, Some 5, Some 6]]"
proof -
  let ?A = "[Some (1::nat), Some 2, Some 3]" and ?B = "[Some (4::nat), Some 5, Some 6]"
  have "rectangular [?A, ?B] 3" and "concat [?A, ?B] \<noteq> []"
    by (simp_all add: rectangular_def)
  from transpose_js_rectangular [OF this] show ?thesis by fastforce
qed

text \<open>
  A list of rows without any entry is outside of that: the one row without a column
  transposes to the list without rows, and transposing that throws.
\<close>

lemma transpose_js_no_column:
  "transpose_js ([[]] :: nat option list list) = Inr []
   \<and> transpose_js ([] :: nat option list list)
       = Inl (TypeError ''Cannot read properties of undefined (reading 'map')'')"
  by (simp add: transpose_js_def)

subsection \<open>The transaction plan\<close>

lemma getTransactions_unknown_account:
  assumes "getTransactionFee P w (NamedFee ''Transfer'') prov (token (sell d)) = Inr transferSold"
    and "getTransactionFee P w (NamedFee ''Transfer'') prov (token (buy d)) = Inr transferBought"
    and "getTransactionFee P w (ChangePubKeyFee False) prov (token (sell d)) = Inr changePubKey"
    and "getTransactionFee P w (NamedFee ''Withdraw'') prov (token (sell d)) = Inr withdrawFee"
    and "getState P w (Some esc) = Inr acc"
    and "account_id acc = None \<or> account_id acc = Some 0"
  shows "getTransactions P w d client prov esc pkh
           = Inl (Error ''Swap Account ID not set - can't sign transactions'')"
  using assms by (auto simp: getTransactions_def bindE_def)

lemma getTransactions_window_facts:
  assumes "getTransactions P w d client prov esc pkh = Inr plan"
  shows "length plan = 5
    \<and> accountId (plan ! 3) = accountId (plan ! 1) \<and> nonce (plan ! 1) = 1 \<and> nonce (plan ! 3) = 1
    \<and> validFrom (plan ! 1) = 0 \<and> validUntil (plan ! 1) = timeout d
    \<and> validFrom (plan ! 3) = timeout d + 1"
  using assms
  by (auto simp: getTransactions_def bindE_def split: sum.splits option.splits if_splits)

text \<open>
  C1. Whenever the ledger answers the four fee queries, knows the escrow account under an
  id (\<open>0 < i\<close>) and resolves the two tokens, \<open>getTransactions\<close> returns, for any swap terms,
  exactly five descriptors:
  0 a ChangePubKey with nonce 0 valid in \<open>[0, MAX_TIMESTAMP]\<close>;
  1 a Transfer of the buy token from the escrow account to the client for \<open>buy.amount\<close>,
    nonce 1, valid in \<open>[0, timeout]\<close>;
  2 a Withdraw (if \<open>withdrawType\<close> is \<open>L1\<close>) or else a Transfer of the sell token to the
    provider for \<open>sell.amount\<close>, nonce 2, valid in \<open>[0, MAX_TIMESTAMP]\<close>;
  3 a Transfer of the sell token back to the client for \<open>sell.amount\<close>, nonce 1, valid in
    \<open>[timeout + 1, MAX_TIMESTAMP]\<close>;
  4 a Transfer of amount 0 of the buy token to the provider, nonce 2, valid in
    \<open>[timeout + 1, MAX_TIMESTAMP]\<close>.
\<close>

theorem getTransactions_plan:
  assumes "getTransactionFee P w (NamedFee ''Transfer'') prov (token (sell d)) = Inr transferSold"
    and "getTransactionFee P w (NamedFee ''Transfer'') prov (token (buy d)) = Inr transferBought"
    and "getTransactionFee P w (ChangePubKeyFee False) prov (token (sell d)) = Inr changePubKey"
    and "getTransactionFee P w (NamedFee ''Withdraw'') prov (token (sell d)) = Inr withdrawFee"
    and "getState P w (Some esc) = Inr acc"
    and "account_id acc = Some i" and "0 < i"
    and "resolveTokenId P w (token (buy d)) = Inr buyTokenId"
    and "resolveTokenId P w (token (sell d)) = Inr sellTokenId"
  shows "\<exists>plan. getTransactions P w d client prov esc pkh = Inr plan \<and> length plan = 5
    \<and> tx_type (plan ! 0) = ''ChangePubKey'' \<and> nonce (plan ! 0) = 0
      \<and> validFrom (plan ! 0) = 0 \<and> validUntil (plan ! 0) = MAX_TIMESTAMP P
    \<and> tx_type (plan ! 1) = ''Transfer'' \<and> tokenId (plan ! 1) = Some buyTokenId
      \<and> from_addr (plan ! 1) = Some (address acc) \<and> to_addr (plan ! 1) = Some client
      \<and> tx_amount (plan ! 1) = Some (amount (buy d)) \<and> nonce (plan ! 1) = 1
      \<and> validFrom (plan ! 1) = 0 \<and> validUntil (plan ! 1) = timeout d
    \<and> (if withdrawType d = Some ''L1''
        then tx_type (plan ! 2) = ''Withdraw'' \<and> ethAddress (plan ! 2) = Some prov
        else tx_type (plan ! 2) = ''Transfer'' \<and> to_addr (plan ! 2) = Some prov)
      \<and> tokenId (plan ! 2) = Some sellTokenId \<and> from_addr (plan ! 2) = Some (address acc)
      \<and> tx_amount (plan ! 2) = Some (amount (sell d)) \<and> nonce (plan ! 2) = 2
      \<and> validFrom (plan ! 2) = 0 \<and> validUntil (plan ! 2) = MAX_TIMESTAMP P
    \<and> tx_type (plan ! 3) = ''Transfer'' \<and> tokenId (plan ! 3) = Some sellTokenId
      \<and> from_addr (plan ! 3) = Some (address acc) \<and> to_addr (plan ! 3) = Some client
      \<and> tx_amount (plan ! 3) = Some (amount (sell d)) \<and> nonce (plan ! 3) = 1
      \<and> validFrom (plan ! 3) = timeout d + 1 \<and> validUntil (plan ! 3) = MAX_TIMESTAMP P
    \<and> tx_type (plan ! 4) = ''Transfer'' \<and> tokenId (plan ! 4) = Some buyTokenId
      \<and> from_addr (plan ! 4) = Some (address acc) \<and> to_addr (plan ! 4) = Some prov
      \<and> tx_amount (plan ! 4) = Some 0 \<and> nonce (plan ! 4) = 2
      \<and> validFrom (plan ! 4) = timeout d + 1 \<and> validUntil (plan ! 4) = MAX_TIMESTAMP P"
  using assms by (simp add: getTransactions_def bindE_def)

theorem getTransactions_plan_witness:
  "\<exists>plan. getTransactions testE [] testData ''0xClient'' ''0xProvider'' ''0xEscrow'' [9] = Inr plan
     \<and> length plan = 5
     \<and> tx_type (plan ! 2) = ''Transfer'' \<and> to_addr (plan ! 2) = Some ''0xProvider''
     \<and> tx_amount (plan ! 3) = Some 1 \<and> nonce (plan ! 3) = 1 \<and> validFrom (plan ! 3) = 601
     \<and> tx_amount (plan ! 4) = Some 0 \<and> nonce (plan ! 4) = 2 \<and> validUntil (plan ! 4) = 4294967295"
proof -
  let ?acc = "\<lparr> account_id = Some 7, address = ''0xEscrow'',
                 committed_balances = [''DAI'' \<mapsto> 1000, ''ETH'' \<mapsto> 1] \<rparr>"
  have h1: "getTransactionFee testE [] (NamedFee ''Transfer'') ''0xProvider'' (token (sell testData)) = Inr 10"
    and h2: "getTransactionFee testE [] (NamedFee ''Transfer'') ''0xProvider'' (token (buy testData)) = Inr 10"
    and h3: "getTransactionFee testE [] (ChangePubKeyFee False) ''0xProvider'' (token (sell testData)) = Inr 20"
    and h4: "getTransactionFee testE [] (NamedFee ''Withdraw'') ''0xProvider'' (token (sell testData)) = Inr 30"
    and h5: "getState testE [] (Some ''0xEscrow'') = Inr ?acc"
    and h6: "account_id ?acc = Some 7" and h7: "(0::nat) < 7"
    and h8: "resolveTokenId testE [] (token (buy testData)) = Inr 1"
    and h9: "resolveTokenId testE [] (token (sell testData)) = Inr 0"
    by (simp_all add: testE_def testData_def)
  from getTransactions_plan [OF h1 h2 h3 h4 h5 h6 h7 h8 h9, of "''0xClient''" "[9]"]
  obtain plan where p: "getTransactions testE [] testData ''0xClient'' ''0xProvider'' ''0xEscrow'' [9] = Inr plan"
    and l: "length plan = 5"
    and p2: "if withdrawType testData = Some ''L1''
        then tx_type (plan ! 2) = ''Withdraw'' \<and> ethAddress (plan ! 2) = Some ''0xProvider''
        else tx_type (plan ! 2) = ''Transfer'' \<and> to_addr (plan ! 2) = Some ''0xProvider''"
    and p3: "tx_amount (plan ! 3) = Some (amount (sell testData))" "nonce (plan ! 3) = 1"
            "validFrom (plan ! 3) = timeout testData + 1"
    and p4: "tx_amount (plan ! 4) = Some 0" "nonce (plan ! 4) = 2"
            "validUntil (plan ! 4) = MAX_TIMESTAMP testE"
    by blast
  have "withdrawType testData = None" "amount (sell testData) = 1" "timeout testData = 600"
       "MAX_TIMESTAMP testE = 4294967295"
    by (simp_all add: testData_def testE_def)
  with p l p2 p3 p4 show ?thesis by (intro exI [of _ plan]) simp
qed

text \<open>
  C3, evaluated on the terms of the repository's test, where the creator of the escrow
  contract (\<open>create2.creator\<close>) is the deployer contract and not the client: transaction 0
  names the client as \<open>creatorAddress\<close>, while \<open>prepareSwap\<close> derives the escrow address
  with \<open>create2.creator\<close>. Salt and code hash agree; the creator does not.
\<close>

theorem changePubKey_creator_differs:
  "getTransactions testE [] testData ''0xClient'' ''0xProvider'' ''0xEscrow'' [9] = Inr testPlan
   \<and> ethAuthData (testPlan ! 0)
       = Some \<lparr> creatorAddress = ''0xClient'', saltArg = ''0xSalt'', codeHash = ''0xCodeHash'',
                 auth_type = ''CREATE2'' \<rparr>
   \<and> prepareSwap_create2Args testData
       = \<lparr> creatorAddress = ''0xDeployer'', saltArg = ''0xSalt'', codeHash = ''0xCodeHash'' \<rparr>
   \<and> map_option creatorAddress (ethAuthData (testPlan ! 0))
       \<noteq> Some (creatorAddress (prepareSwap_create2Args testData))"
  by (simp add: testPlan_def getTransactions_def bindE_def testE_def testData_def
        prepareSwap_create2Args_def)

lemma changePubKey_creator_is_client:
  assumes "getTransactions P w d client prov esc pkh = Inr plan"
  shows "map_option creatorAddress (ethAuthData (plan ! 0)) = Some client
       \<and> map_option saltArg (ethAuthData (plan ! 0)) = Some (saltArg (prepareSwap_create2Args d))
       \<and> map_option codeHash (ethAuthData (plan ! 0)) = Some (codeHash (prepareSwap_create2Args d))"
  using assms
  by (auto simp: getTransactions_def bindE_def prepareSwap_create2Args_def
           split: sum.splits option.splits if_splits)

subsection \<open>Exclusivity of the two paths on the ledger\<close>

lemma ledger_inv_fresh: "ledger_inv fresh_ledger"
  by (simp add: ledger_inv_def fresh_ledger_def)

lemma ledger_inv_submit: "ledger_inv L \<Longrightarrow> ledger_inv (ledger_submit L sub)"
  by (cases sub) (auto simp: ledger_inv_def ledger_submit_def ledger_accepts_def nonce_key_def)

lemma ledger_step_submit: "ledger_step L tx now L' \<Longrightarrow> L' = ledger_submit L (tx, now)"
  by (auto simp: ledger_submit_def elim: ledger_step.cases)

lemma reachable_inv: "reachable L \<Longrightarrow> ledger_inv L"
  by (induction rule: reachable.induct)
     (auto simp: ledger_inv_fresh ledger_inv_submit dest!: ledger_step_submit)

lemma reachable_submit: "reachable L \<Longrightarrow> reachable (ledger_submit L sub)"
proof (cases sub)
  case (Pair tx now)
  assume r: "reachable L"
  show ?thesis
  proof (cases "ledger_accepts L tx now")
    case True
    then have "ledger_step L tx now (ledger_submit L (tx, now))"
      by (simp add: ledger_submit_def ledger_step.accept)
    with r Pair show ?thesis by (auto intro: reachable.step)
  next
    case False
    with r Pair show ?thesis by (simp add: ledger_submit_def)
  qed
qed

lemma reachable_foldl: "reachable L \<Longrightarrow> reachable (foldl ledger_submit L subs)"
  by (induction subs arbitrary: L) (simp_all add: reachable_submit)

lemma reachable_run: "reachable (ledger_run subs)"
  by (simp add: ledger_run_def reachable_foldl reachable.fresh)

lemma ledger_inv_same_key:
  assumes "ledger_inv L" and "a \<in> set (accepted L)" and "b \<in> set (accepted L)"
    and "nonce_key a = nonce_key b"
  shows "a = b"
proof -
  from assms(1) have "inj_on nonce_key (set (accepted L))"
    by (simp add: ledger_inv_def distinct_map)
  with assms(2-4) show ?thesis by (simp add: inj_on_def)
qed

lemma ledger_inv_window:
  "ledger_inv L \<Longrightarrow> a \<in> set (accepted L) \<Longrightarrow> validFrom a \<le> validUntil a"
  by (auto simp: ledger_inv_def list_all_iff)

text \<open>
  Transactions 1 and 3 have the same account and the same nonce. If they are the same
  transaction, its window is \<open>[0, timeout] = [timeout + 1, MAX_TIMESTAMP]\<close>, which is
  empty; if they are not, the ledger accepts at most one of them.
\<close>

lemma refund_excludes_pay_buyer:
  assumes "getTransactions P w d client prov esc pkh = Inr plan" and "reachable L"
  shows "\<not> (plan ! 1 \<in> set (accepted L) \<and> plan ! 3 \<in> set (accepted L))"
proof
  assume both: "plan ! 1 \<in> set (accepted L) \<and> plan ! 3 \<in> set (accepted L)"
  note f = getTransactions_window_facts [OF assms(1)]
  have inv: "ledger_inv L" using assms(2) by (rule reachable_inv)
  from f have "nonce_key (plan ! 1) = nonce_key (plan ! 3)" by (simp add: nonce_key_def)
  with inv both have same: "plan ! 1 = plan ! 3" by (blast intro: ledger_inv_same_key)
  from inv both have "validFrom (plan ! 1) \<le> validUntil (plan ! 1)"
    by (blast intro: ledger_inv_window)
  with f have "0 \<le> timeout d" by simp
  moreover from same f have "timeout d + 1 = 0" by simp
  ultimately show False by simp
qed

text \<open>
  C2. Take the plan that \<open>getTransactions\<close> returns, and the ledger whose step accepts a
  transaction only with an unconsumed nonce and inside its validity window. In every
  ledger state reachable by such steps (of any transactions, the plan's or others, in any
  order and at any times), it is not the case that transactions 1 and 2 and also
  transactions 3 and 4 of the plan have been accepted.
\<close>

theorem plan_paths_exclusive:
  assumes "getTransactions P w d client prov esc pkh = Inr plan" and "reachable L"
  shows "\<not> ((plan ! 1 \<in> set (accepted L) \<and> plan ! 2 \<in> set (accepted L))
          \<and> (plan ! 3 \<in> set (accepted L) \<and> plan ! 4 \<in> set (accepted L)))"
  using refund_excludes_pay_buyer [OF assms] by blast

theorem plan_paths_exclusive_witness:
  "getTransactions testE [] testData ''0xClient'' ''0xProvider'' ''0xEscrow'' [9] = Inr testPlan
   \<and> reachable (ledger_run [(testPlan ! 3, 5), (testPlan ! 1, 5), (testPlan ! 2, 5),
                            (testPlan ! 4, 800), (testPlan ! 3, 900)])
   \<and> accepted (ledger_run [(testPlan ! 3, 5), (testPlan ! 1, 5), (testPlan ! 2, 5),
                            (testPlan ! 4, 800), (testPlan ! 3, 900)])
       = [testPlan ! 1, testPlan ! 2]
   \<and> \<not> ((testPlan ! 1 \<in> set (accepted (ledger_run [(testPlan ! 3, 5), (testPlan ! 1, 5),
                (testPlan ! 2, 5), (testPlan ! 4, 800), (testPlan ! 3, 900)]))
          \<and> testPlan ! 2 \<in> set (accepted (ledger_run [(testPlan ! 3, 5), (testPlan ! 1, 5),
                (testPlan ! 2, 5), (testPlan ! 4, 800), (testPlan ! 3, 900)])))
        \<and> (testPlan ! 3 \<in> set (accepted (ledger_run [(testPlan ! 3, 5), (testPlan ! 1, 5),
                (testPlan ! 2, 5), (testPlan ! 4, 800), (testPlan ! 3, 900)]))
          \<and> testPlan ! 4 \<in> set (accepted (ledger_run [(testPlan ! 3, 5), (testPlan ! 1, 5),
                (testPlan ! 2, 5), (testPlan ! 4, 800), (testPlan ! 3, 900)]))))"
proof -
  let ?subs = "[(testPlan ! 3, 5), (testPlan ! 1, 5), (testPlan ! 2, 5),
                (testPlan ! 4, 800), (testPlan ! 3, 900)]"
  have p: "getTransactions testE [] testData ''0xClient'' ''0xProvider'' ''0xEscrow'' [9] = Inr testPlan"
    by (simp add: testPlan_def getTransactions_def bindE_def testE_def testData_def)
  have r: "reachable (ledger_run ?subs)" by (rule reachable_run)
  have run: "accepted (ledger_run ?subs) = [testPlan ! 1, testPlan ! 2]"
    by code_simp
  from p r run plan_paths_exclusive [OF p r] show ?thesis by blast
qed

subsection \<open>The state machine of the client\<close>

text \<open>
  C7. Each of \<open>prepareSwap\<close> (which requires state Empty), \<open>signSwap\<close> (Prepared),
  \<open>depositFunds\<close> (Signed), \<open>wait\<close> (Deposited) and \<open>loadSwap\<close> (Empty), called in any
  other state, throws its invalid-state error and leaves the whole party object (so its
  state, swap terms and transaction plan) and the outside world as they were.
\<close>

theorem wrong_state_rejected:
  "(state this \<noteq> Empty \<longrightarrow>
      prepareSwap E data providerPubkey providerAddress providerPrecommitments this w
        = (Inl (Error ''In the middle of a swap - can't start a new one''), this, w))
   \<and> (state this \<noteq> Prepared \<longrightarrow>
      signSwap E data_commitments data_shares this w
        = (Inl (Error ''Not prepared for the swap''), this, w))
   \<and> (state this \<noteq> Signed \<longrightarrow>
      depositFunds E depositType autoApprove this w
        = (Inl (Error ''Not yet signed the transactions - can't deposit funds''), this, w))
   \<and> (state this \<noteq> Deposited \<longrightarrow>
      wait E action now this w
        = (Inl (Error ''No funds on the swap account - nothing to wait for''), this, w))
   \<and> (state this \<noteq> Empty \<longrightarrow>
      loadSwap E swapData' txs this w
        = (Inl (Error ''In the middle of a swap - can't switch to a new one''), this, w))"
  by (simp add: prepareSwap_def signSwap_def depositFunds_def wait_def loadSwap_def)

theorem wrong_state_rejected_witness:
  "prepareSwap testE testData ''0xProviderPub'' ''0xProvider'' (replicate 5 [1])
       (testParty Finalized (Some testPlan)) []
     = (Inl (Error ''In the middle of a swap - can't start a new one''),
        testParty Finalized (Some testPlan), [])
   \<and> signSwap testE (replicate 5 [2]) [[0], [1], [2], [1], [2]] (testParty Finalized (Some testPlan)) []
     = (Inl (Error ''Not prepared for the swap''), testParty Finalized (Some testPlan), [])
   \<and> depositFunds testE ''L2'' True (testParty Finalized (Some testPlan)) []
     = (Inl (Error ''Not yet signed the transactions - can't deposit funds''),
        testParty Finalized (Some testPlan), [])
   \<and> wait testE ''COMMIT'' 0 (testParty Finalized (Some testPlan)) []
     = (Inl (Error ''No funds on the swap account - nothing to wait for''),
        testParty Finalized (Some testPlan), [])
   \<and> loadSwap testE testData testPlan (testParty Finalized (Some testPlan)) []
     = (Inl (Error ''In the middle of a swap - can't switch to a new one''),
        testParty Finalized (Some testPlan), [])"
proof -
  have s: "state (testParty Finalized (Some testPlan)) = Finalized"
    by (simp add: testParty_def)
  show ?thesis
    using wrong_state_rejected [of "testParty Finalized (Some testPlan)" testE testData
        "''0xProviderPub''" "''0xProvider''" "replicate 5 [1]" "[]" "replicate 5 [2]"
        "[[0], [1], [2], [1], [2]]" "''L2''" True "''COMMIT''" 0 testData testPlan]
    by (simp add: s)
qed

text \<open>
  C6. With swap terms set and \<^verbatim>\<open>Date.now()\<close> before \<open>timeout * 1000\<close>, \<open>cancelSwap\<close> throws
  \<open>Too early to cancel the swap\<close> whatever the state of the party is, and changes
  neither the party nor the outside world.
\<close>

theorem cancelSwap_before_timeout:
  assumes "swapData this = Some d" and "now < timeout d * 1000"
  shows "cancelSwap E now this w = (Inl (Error ''Too early to cancel the swap''), this, w)"
  using assms by (simp add: cancelSwap_def)

theorem cancelSwap_before_timeout_witness:
  "cancelSwap testE 599999 (testParty Empty None) [] 
     = (Inl (Error ''Too early to cancel the swap''), testParty Empty None, [])
   \<and> cancelSwap testE 599999 (testParty Prepared (Some testPlan)) [] 
     = (Inl (Error ''Too early to cancel the swap''), testParty Prepared (Some testPlan), [])
   \<and> cancelSwap testE 599999 (testParty Signed (Some testPlan)) [] 
     = (Inl (Error ''Too early to cancel the swap''), testParty Signed (Some testPlan), [])
   \<and> cancelSwap testE 599999 (testParty Deposited (Some testPlan)) [] 
     = (Inl (Error ''Too early to cancel the swap''), testParty Deposited (Some testPlan), [])
   \<and> cancelSwap testE 599999 (testParty Finalized (Some testPlan)) [] 
     = (Inl (Error ''Too early to cancel the swap''), testParty Finalized (Some testPlan), [])"
proof -
  have d: "swapData (testParty st txs) = Some testData" for st txs
    by (simp add: testParty_def)
  have t: "(599999::int) < timeout testData * 1000" by (simp add: testData_def)
  show ?thesis
    by (simp add: cancelSwap_before_timeout [OF d t])
qed

text \<open>
  What \<open>loadSwap\<close> does when the committed balances do have an entry for the sell token.
  Called in state Empty with a plan whose first transaction exists, and with a ledger that
  returns the account of \<open>signedTransactions[0].account\<close>, it stores the terms and the plan
  and sets the state to Signed if \<open>sell.amount\<close> is strictly greater than the entry, and
  to Deposited otherwise (so also when the two are equal).
\<close>

lemma loadSwap_with_balance_entry:
  assumes "state this = Empty"
    and "txs = tx0 # rest"
    and "getState E w (account tx0) = Inr swapAccount"
    and "committed_balances swapAccount (token (sell d)) = Some balance"
  shows "loadSwap E d txs this w
           = (Inr (),
              this\<lparr>swapData := Some d, transactions := Some txs,
                    state := (if amount (sell d) > balance then Signed else Deposited)\<rparr>,
              w)"
  using assms by (simp add: loadSwap_def js_get_def bn_gt_def)

lemma loadSwap_with_balance_entry_example:
  "loadSwap testE testData testPlan (testParty Empty None) []
     = (Inr (), testParty Deposited (Some testPlan), [])
   \<and> loadSwap testE (testData\<lparr>sell := \<lparr>token = ''ETH'', amount = 2\<rparr>\<rparr>) testPlan (testParty Empty None) []
     = (Inr (), (testParty Signed (Some testPlan))
                  \<lparr>swapData := Some (testData\<lparr>sell := \<lparr>token = ''ETH'', amount = 2\<rparr>\<rparr>)\<rparr>, [])"
proof -
  let ?acc = "\<lparr> account_id = Some 7, address = ''0xEscrow'',
                 committed_balances = [''DAI'' \<mapsto> 1000, ''ETH'' \<mapsto> 1] \<rparr>"
  let ?d2 = "testData\<lparr>sell := \<lparr>token = ''ETH'', amount = 2\<rparr>\<rparr>"
  have s: "state (testParty Empty None) = Empty" by (simp add: testParty_def)
  have p: "testPlan = testPlan ! 0 # tl testPlan"
    by (simp add: testPlan_def getTransactions_def bindE_def testE_def testData_def)
  have a: "account (testPlan ! 0) = Some ''0xEscrow''"
    by (simp add: testPlan_def getTransactions_def bindE_def testE_def testData_def)
  have g: "getState testE [] (account (testPlan ! 0)) = Inr ?acc"
    by (simp add: a) (simp add: testE_def)
  have b1: "committed_balances ?acc (token (sell testData)) = Some 1"
    and b2: "committed_balances ?acc (token (sell ?d2)) = Some 1"
    by (simp_all add: testData_def)
  have "loadSwap testE testData testPlan (testParty Empty None) []
     = (Inr (), testParty Deposited (Some testPlan), [])"
    using loadSwap_with_balance_entry [OF s p g b1] by (simp add: testParty_def testData_def)
  moreover have "loadSwap testE ?d2 testPlan (testParty Empty None) []
     = (Inr (), (testParty Signed (Some testPlan))\<lparr>swapData := Some ?d2\<rparr>, [])"
    using loadSwap_with_balance_entry [OF s p g b2] by (simp add: testParty_def testData_def)
  ultimately show ?thesis by simp
qed

text \<open>
  Without an entry for the sell token, \<^verbatim>\<open>balances[token]\<close> is \<^verbatim>\<open>undefined\<close> and the
  comparison throws: the terms and the plan have been stored by then, and the state is
  still Empty.
\<close>

lemma loadSwap_without_balance_entry:
  assumes "state this = Empty"
    and "txs = tx0 # rest"
    and "getState E w (account tx0) = Inr swapAccount"
    and "committed_balances swapAccount (token (sell d)) = None"
  shows "loadSwap E d txs this w
           = (Inl (Error ''invalid BigNumber value''),
              this\<lparr>swapData := Some d, transactions := Some txs\<rparr>, w)"
  using assms by (simp add: loadSwap_def js_get_def bn_gt_def)

text \<open>
  C8, evaluated where the client has signed and not deposited anything yet: the escrow
  account has no committed balance of the sell token, the required sell amount 1 is
  strictly greater than that balance of zero, and the claim has \<open>loadSwap\<close> set the state
  to Signed. The ledger reports a balance of zero as no entry (the repository's test reads
  \<^verbatim>\<open>state.committed.balances[token] || '0'\<close>); \<open>loadSwap\<close> compares with the missing
  entry as it is, throws, and leaves the party in state Empty with the terms and the plan
  stored. It sets neither Signed nor Deposited.
\<close>

theorem loadSwap_no_deposit_throws:
  "getState testE_noDeposit [] (account (testPlan ! 0))
     = Inr \<lparr> account_id = Some 7, address = ''0xEscrow'', committed_balances = Map.empty \<rparr>
   \<and> amount (sell testData) = 1
   \<and> loadSwap testE_noDeposit testData testPlan (testParty Empty None) []
     = (Inl (Error ''invalid BigNumber value''), testParty Empty (Some testPlan), [])
   \<and> state (fst (snd (loadSwap testE_noDeposit testData testPlan (testParty Empty None) [])))
     = Empty
   \<and> state (fst (snd (loadSwap testE_noDeposit testData testPlan (testParty Empty None) [])))
     \<noteq> Signed"
  by (simp add: loadSwap_def js_get_def bn_gt_def testE_noDeposit_def testE_def testData_def
        testPlan_def getTransactions_def bindE_def testParty_def)

text \<open>
  C9. In state Deposited, \<open>wait\<close> races the notification for the hash of transaction 1
  against a timer of \<open>timeout * 1000 - now\<close> milliseconds. If the notification resolves
  first (with a receipt object), the state becomes Finalized and the result is \<open>true\<close>;
  if the timer resolves first, the result is \<open>false\<close>, nothing is thrown and the party
  is unchanged, so still Deposited.
\<close>

theorem wait_outcomes:
  assumes "state this = Deposited"
    and "transactions this = Some txs"
    and "getSignBytes E (js_get txs 1) = Inr bytes"
    and "swapData this = Some d"
  shows "(notifyRace E w (js_replace ''0x'' (SYNC_TX_PREFIX E) (sha256 E bytes)) action
             (timeout d * 1000 - now) = EventFirst JsObject
           \<longrightarrow> wait E action now this w = (Inr True, this\<lparr>state := Finalized\<rparr>, w))
       \<and> (notifyRace E w (js_replace ''0x'' (SYNC_TX_PREFIX E) (sha256 E bytes)) action
             (timeout d * 1000 - now) = TimerFirst
           \<longrightarrow> wait E action now this w = (Inr False, this, w))"
  using assms by (simp add: wait_def)

theorem wait_outcomes_witness:
  "wait testE ''COMMIT'' 0 (testParty Deposited (Some testPlan)) []
     = (Inr True, testParty Finalized (Some testPlan), [])
   \<and> wait testE ''COMMIT'' 600000 (testParty Deposited (Some testPlan)) []
     = (Inr False, testParty Deposited (Some testPlan), [])"
proof -
  have s: "state (testParty Deposited (Some testPlan)) = Deposited"
    and t: "transactions (testParty Deposited (Some testPlan)) = Some testPlan"
    and d: "swapData (testParty Deposited (Some testPlan)) = Some testData"
    by (simp_all add: testParty_def)
  have b: "getSignBytes testE (js_get testPlan 1) = Inr [1]"
    by (simp add: testPlan_def getTransactions_def bindE_def testE_def testData_def
          getSignBytes_def js_get_def)
  have r1: "notifyRace testE [] (js_replace ''0x'' (SYNC_TX_PREFIX testE) (sha256 testE [1]))
              ''COMMIT'' (timeout testData * 1000 - 0) = EventFirst JsObject"
    and r2: "notifyRace testE [] (js_replace ''0x'' (SYNC_TX_PREFIX testE) (sha256 testE [1]))
              ''COMMIT'' (timeout testData * 1000 - 600000) = TimerFirst"
    by (simp_all add: testE_def testData_def)
  from wait_outcomes [OF s t b d, of "[]" "''COMMIT''" 0] r1
  have "wait testE ''COMMIT'' 0 (testParty Deposited (Some testPlan)) []
     = (Inr True, testParty Finalized (Some testPlan), [])"
    by (simp add: testParty_def)
  moreover from wait_outcomes [OF s t b d, of "[]" "''COMMIT''" 600000] r2
  have "wait testE ''COMMIT'' 600000 (testParty Deposited (Some testPlan)) []
     = (Inr False, testParty Deposited (Some testPlan), [])"
    by simp
  ultimately show ?thesis by simp
qed

subsection \<open>The terminal paths\<close>

text \<open>
  C4 (as amended). In state Deposited, with an escrow balance of the buy token of at least
  \<open>buy.amount\<close>, \<open>finalizeSwap\<close> calls \<open>sendBatch\<close> twice: first with the batch
  \<open>[transactions[0]]\<close>, then, in the world the first call leaves, with the batch
  \<open>[transactions[1]]\<close>; when both calls succeed it sets the state to Finalized and returns
  the hashes of the second. At or after the timeout \<open>cancelSwap\<close> does the same with
  \<open>[transactions[0]]\<close> and then \<open>[transactions[3]]\<close>.
\<close>

theorem terminal_paths_send_two_batches:
  assumes "state this = Deposited"
    and "swapData this = Some d"
    and "transactions this = Some txs" and "length txs = 5"
    and "sendBatch E w (walletAddress this) [Some (txs ! 0)] (token (sell d)) = (Inr hashes0, w1)"
  shows "(swapAddress E this = Inr escrow \<and> getState E w (Some escrow) = Inr swapAccount
            \<and> committed_balances swapAccount (token (buy d)) = Some balance
            \<and> amount (buy d) \<le> balance
            \<and> sendBatch E w1 (walletAddress this) [Some (txs ! 1)] (token (sell d)) = (Inr hashes, w2)
          \<longrightarrow> finalizeSwap E this w = (Inr hashes, this\<lparr>state := Finalized\<rparr>, w2))
       \<and> (timeout d * 1000 \<le> now
            \<and> sendBatch E w1 (walletAddress this) [Some (txs ! 3)] (token (sell d)) = (Inr hashes, w2)
          \<longrightarrow> cancelSwap E now this w = (Inr hashes, this\<lparr>state := Finalized\<rparr>, w2))"
  using assms by (auto simp: finalizeSwap_def cancelSwap_def js_get_def bn_gt_def)

theorem terminal_paths_send_two_batches_witness:
  "finalizeSwap testE (testParty Deposited (Some testPlan)) []
     = (Inr [''0xbatch''], testParty Finalized (Some testPlan),
        [[Some (testPlan ! 0)], [Some (testPlan ! 1)]])
   \<and> cancelSwap testE 600000 (testParty Deposited (Some testPlan)) []
     = (Inr [''0xbatch''], testParty Finalized (Some testPlan),
        [[Some (testPlan ! 0)], [Some (testPlan ! 3)]])"
proof -
  let ?p = "testParty Deposited (Some testPlan)"
  let ?acc = "\<lparr> account_id = Some 7, address = ''0xEscrow'',
                 committed_balances = [''DAI'' \<mapsto> 1000, ''ETH'' \<mapsto> 1] \<rparr>"
  have s: "state ?p = Deposited" and d: "swapData ?p = Some testData"
    and t: "transactions ?p = Some testPlan"
    by (simp_all add: testParty_def)
  have l: "length testPlan = 5"
    by (simp add: testPlan_def getTransactions_def bindE_def testE_def testData_def)
  have b0: "sendBatch testE [] (walletAddress ?p) [Some (testPlan ! 0)] (token (sell testData))
              = (Inr [''0xbatch''], [[Some (testPlan ! 0)]])"
    by (simp add: testE_def)
  have pre: "swapAddress testE ?p = Inr ''0xEscrow'' \<and> getState testE [] (Some ''0xEscrow'') = Inr ?acc
            \<and> committed_balances ?acc (token (buy testData)) = Some 1000
            \<and> amount (buy testData) \<le> 1000
            \<and> sendBatch testE [[Some (testPlan ! 0)]] (walletAddress ?p) [Some (testPlan ! 1)]
                 (token (sell testData))
               = (Inr [''0xbatch''], [[Some (testPlan ! 0)], [Some (testPlan ! 1)]])"
    by (simp add: testE_def testParty_def testData_def)
  have late: "timeout testData * 1000 \<le> 600000
            \<and> sendBatch testE [[Some (testPlan ! 0)]] (walletAddress ?p) [Some (testPlan ! 3)]
                 (token (sell testData))
               = (Inr [''0xbatch''], [[Some (testPlan ! 0)], [Some (testPlan ! 3)]])"
    by (simp add: testE_def testData_def)
  note th = terminal_paths_send_two_batches [OF s d t l b0]
  from th [where escrow = "''0xEscrow''" and swapAccount = ?acc and balance = 1000
        and ?w2.0 = "[[Some (testPlan ! 0)], [Some (testPlan ! 1)]]" and hashes = "[''0xbatch'']"] pre
  have "finalizeSwap testE ?p [] = (Inr [''0xbatch''], ?p\<lparr>state := Finalized\<rparr>,
        [[Some (testPlan ! 0)], [Some (testPlan ! 1)]])"
    by blast
  moreover
  from th [where ?w2.0 = "[[Some (testPlan ! 0)], [Some (testPlan ! 3)]]" and hashes = "[''0xbatch'']"
        and now = 600000] late
  have "cancelSwap testE 600000 ?p [] = (Inr [''0xbatch''], ?p\<lparr>state := Finalized\<rparr>,
        [[Some (testPlan ! 0)], [Some (testPlan ! 3)]])"
    by blast
  moreover have "?p\<lparr>state := Finalized\<rparr> = testParty Finalized (Some testPlan)"
    by (simp add: testParty_def)
  ultimately show ?thesis by simp
qed

text \<open>
  C4 as stated has transactions 0 and 1 (or 0 and 3) submitted as one atomic batch. On the
  test double, whose world is the log of the batches sent, the log after \<open>finalizeSwap\<close>
  and after \<open>cancelSwap\<close> holds two batches of one transaction each, and no batch with
  both transactions.
\<close>

theorem terminal_paths_single_batch_counterexample:
  "finalizeSwap testE (testParty Deposited (Some testPlan)) []
     = (Inr [''0xbatch''], testParty Finalized (Some testPlan),
        [[Some (testPlan ! 0)], [Some (testPlan ! 1)]])
   \<and> cancelSwap testE 600000 (testParty Deposited (Some testPlan)) []
     = (Inr [''0xbatch''], testParty Finalized (Some testPlan),
        [[Some (testPlan ! 0)], [Some (testPlan ! 3)]])
   \<and> [Some (testPlan ! 0), Some (testPlan ! 1)]
        \<notin> set (snd (snd (finalizeSwap testE (testParty Deposited (Some testPlan)) [])))
   \<and> [Some (testPlan ! 0), Some (testPlan ! 3)]
        \<notin> set (snd (snd (cancelSwap testE 600000 (testParty Deposited (Some testPlan)) [])))"
  by code_simp

subsection \<open>Signing\<close>

lemma signAll_invalid_share:
  assumes "getSignBytes E (Some tx) = Inr bytes"
    and "sign E sg priv bytes i = Inr (share, sg1)"
    and "receiveSignatureShares E sg1 [js_get theirs i, Some share] i = Inr (signature, sg2)"
    and "\<not> verify E sg2 bytes signature"
  shows "signAll E priv pk theirs i (tx # rest) sg acc
           = (Inl (Error ''Provided signature shares are invalid''), sg2, tx # rest)"
  using assms by simp

lemma signAll_error:
  assumes "signAll E priv pk theirs i txs sg acc = (Inl e, sg', txs')"
  shows "\<exists>k sigs. k < length txs \<and> length sigs = k
           \<and> txs' = map2 (\<lambda>tx s. formatTx tx s pk) (take k txs) sigs @ drop k txs
           \<and> (\<forall>j<k. \<exists>sgj bytes. getSignBytes E (Some (txs ! j)) = Inr bytes
                      \<and> verify E sgj bytes (sigs ! j))"
  using assms
proof (induction txs arbitrary: i sg acc sg' txs')
  case Nil
  then show ?case by simp
next
  case (Cons tx rest)
  show ?case
  proof (cases "\<exists>bytes share sg1 signature sg2.
      getSignBytes E (Some tx) = Inr bytes \<and> sign E sg priv bytes i = Inr (share, sg1)
      \<and> receiveSignatureShares E sg1 [js_get theirs i, Some share] i = Inr (signature, sg2)
      \<and> verify E sg2 bytes signature")
    case False
    with Cons.prems have "txs' = tx # rest"
      by (auto split: sum.splits prod.splits if_splits)
    then show ?thesis
      by (intro exI [of _ 0] exI [of _ "[]"]) simp
  next
    case True
    then obtain bytes share sg1 signature sg2 where
      step: "getSignBytes E (Some tx) = Inr bytes" "sign E sg priv bytes i = Inr (share, sg1)"
        "receiveSignatureShares E sg1 [js_get theirs i, Some share] i = Inr (signature, sg2)"
        "verify E sg2 bytes signature"
      by blast
    obtain r sg3 rest' where rec: "signAll E priv pk theirs (i + 1) rest sg2 (acc @ [share]) = (r, sg3, rest')"
      by (cases "signAll E priv pk theirs (i + 1) rest sg2 (acc @ [share])") auto
    with step Cons.prems have r: "r = Inl e" and t: "txs' = formatTx tx signature pk # rest'"
      by simp_all
    from Cons.IH [OF rec [unfolded r]] obtain k sigs where
      k: "k < length rest" "length sigs = k"
        "rest' = map2 (\<lambda>tx s. formatTx tx s pk) (take k rest) sigs @ drop k rest"
        "\<forall>j<k. \<exists>sgj bytes. getSignBytes E (Some (rest ! j)) = Inr bytes \<and> verify E sgj bytes (sigs ! j)"
      by blast
    have "\<forall>j<Suc k. \<exists>sgj bytes. getSignBytes E (Some ((tx # rest) ! j)) = Inr bytes
              \<and> verify E sgj bytes ((signature # sigs) ! j)"
    proof (intro allI impI)
      fix j assume "j < Suc k"
      then show "\<exists>sgj bytes. getSignBytes E (Some ((tx # rest) ! j)) = Inr bytes
              \<and> verify E sgj bytes ((signature # sigs) ! j)"
        using step k(4) by (cases j) auto
    qed
    with k t show ?thesis
      by (intro exI [of _ "Suc k"] exI [of _ "signature # sigs"]) simp
  qed
qed

lemma signAll_append:
  "signAll E priv pk theirs i (xs @ ys) sg acc =
     (case signAll E priv pk theirs i xs sg acc of
        (Inl e, sg', xs') \<Rightarrow> (Inl e, sg', xs' @ ys)
      | (Inr acc', sg', xs') \<Rightarrow>
          (case signAll E priv pk theirs (i + length xs) ys sg' acc' of
             (r, sg'', ys') \<Rightarrow> (r, sg'', xs' @ ys')))"
proof (induction xs arbitrary: i sg acc)
  case Nil
  then show ?case by (simp split: prod.splits)
next
  case (Cons x xs)
  show ?case
    by (simp add: Cons.IH split: sum.splits prod.splits)
qed

lemma signAll_success:
  assumes "signAll E priv pk theirs i txs sg acc = (Inr shares, sg', txs')"
  shows "\<exists>sigs. length sigs = length txs
           \<and> txs' = map2 (\<lambda>tx s. formatTx tx s pk) txs sigs
           \<and> (\<forall>j<length txs. \<exists>sgj bytes. getSignBytes E (Some (txs ! j)) = Inr bytes
                      \<and> verify E sgj bytes (sigs ! j))"
  using assms
proof (induction txs arbitrary: i sg acc sg' txs')
  case Nil
  then show ?case by simp
next
  case (Cons tx rest)
  from Cons.prems obtain bytes share sg1 signature sg2 rest' where
    step: "getSignBytes E (Some tx) = Inr bytes" "sign E sg priv bytes i = Inr (share, sg1)"
      "receiveSignatureShares E sg1 [js_get theirs i, Some share] i = Inr (signature, sg2)"
      "verify E sg2 bytes signature"
    and rec: "signAll E priv pk theirs (i + 1) rest sg2 (acc @ [share]) = (Inr shares, sg', rest')"
    and t: "txs' = formatTx tx signature pk # rest'"
    by (auto split: sum.splits prod.splits if_splits)
  from Cons.IH [OF rec] obtain sigs where
    k: "length sigs = length rest" "rest' = map2 (\<lambda>tx s. formatTx tx s pk) rest sigs"
      "\<forall>j<length rest. \<exists>sgj bytes. getSignBytes E (Some (rest ! j)) = Inr bytes
          \<and> verify E sgj bytes (sigs ! j)"
    by blast
  have "\<forall>j<length (tx # rest). \<exists>sgj bytes. getSignBytes E (Some ((tx # rest) ! j)) = Inr bytes
            \<and> verify E sgj bytes ((signature # sigs) ! j)"
  proof (intro allI impI)
    fix j assume "j < length (tx # rest)"
    then show "\<exists>sgj bytes. getSignBytes E (Some ((tx # rest) ! j)) = Inr bytes
            \<and> verify E sgj bytes ((signature # sigs) ! j)"
      using step k(3) by (cases j) auto
  qed
  with k t show ?case
    by (intro exI [of _ "signature # sigs"]) simp
qed

lemma signSwap_throws_stays_prepared:
  assumes "state this = Prepared"
    and "transactions this = Some txs"
    and "signSwap E data_commitments data_shares this w = (Inl e, this', w')"
  shows "state this' = Prepared \<and> swapData this' = swapData this \<and> w' = w
       \<and> (\<exists>k sigs pk. k \<le> length txs \<and> length sigs = k
            \<and> transactions this' = Some (map2 (\<lambda>tx s. formatTx tx s pk) (take k txs) sigs @ drop k txs)
            \<and> (\<forall>j<k. \<exists>sgj bytes. getSignBytes E (Some (txs ! j)) = Inr bytes
                      \<and> verify E sgj bytes (sigs ! j)))"
proof -
  have trivial: "\<exists>k sigs pk. k \<le> length txs \<and> length sigs = k
            \<and> Some txs = Some (map2 (\<lambda>tx s. formatTx tx s pk) (take k txs) sigs @ drop k txs)
            \<and> (\<forall>j<k. \<exists>sgj bytes. getSignBytes E (Some (txs ! j)) = Inr bytes
                      \<and> verify E sgj bytes (sigs ! j))"
    by (intro exI [of _ 0] exI [of _ "[]"]) simp
  show ?thesis
  proof (cases "\<exists>sg matrix sg1. signer this = Some sg
      \<and> (case commitments this of
                Some own \<Rightarrow> transpose_js [map Some data_commitments, map Some own]
              | None \<Rightarrow> if data_commitments = [] then Inr []
                        else Inl (TypeError ''Cannot read properties of undefined'')) = Inr matrix
      \<and> receiveCommitments E sg matrix = Inr sg1")
    case False
    with assms have "this' = this \<and> w' = w"
      by (auto simp: signSwap_def split: option.splits sum.splits)
    with assms(1,2) trivial show ?thesis by simp
  next
    case True
    then obtain sg matrix sg1 where pre: "signer this = Some sg"
      "(case commitments this of
                Some own \<Rightarrow> transpose_js [map Some data_commitments, map Some own]
              | None \<Rightarrow> if data_commitments = [] then Inr []
                        else Inl (TypeError ''Cannot read properties of undefined'')) = Inr matrix"
      "receiveCommitments E sg matrix = Inr sg1"
      by blast
    obtain r sg2 txs' where loop:
      "signAll E (privateKey this) (computePubkey E sg1) data_shares 0 txs sg1 [] = (r, sg2, txs')"
      by (cases "signAll E (privateKey this) (computePubkey E sg1) data_shares 0 txs sg1 []") auto
    with assms pre have r: "r = Inl e"
      and this': "this' = this\<lparr>signer := Some sg2, transactions := Some txs'\<rparr>" and w: "w' = w"
      by (auto simp: signSwap_def Let_def split: sum.splits)
    from signAll_error [OF loop [unfolded r]] obtain k sigs where
      "k < length txs" "length sigs = k"
      "txs' = map2 (\<lambda>tx s. formatTx tx s (computePubkey E sg1)) (take k txs) sigs @ drop k txs"
      "\<forall>j<k. \<exists>sgj bytes. getSignBytes E (Some (txs ! j)) = Inr bytes \<and> verify E sgj bytes (sigs ! j)"
      by blast
    then have "\<exists>k sigs pk. k \<le> length txs \<and> length sigs = k
            \<and> transactions this' = Some (map2 (\<lambda>tx s. formatTx tx s pk) (take k txs) sigs @ drop k txs)
            \<and> (\<forall>j<k. \<exists>sgj bytes. getSignBytes E (Some (txs ! j)) = Inr bytes
                      \<and> verify E sgj bytes (sigs ! j))"
      unfolding this'
      by (intro exI [of _ k] exI [of _ sigs] exI [of _ "computePubkey E sg1"]) simp
    with this' w assms(1) show ?thesis by simp
  qed
qed

text \<open>
  C5 (as amended). Let \<open>signSwap\<close> be called in state Prepared, let the commitment round
  go through, let the loop sign, verify and format the transactions before index \<open>i\<close>,
  and let the combined signature of transaction \<open>i\<close> fail verification. Then \<open>signSwap\<close>
  throws \<open>Provided signature shares are invalid\<close>; the state is still Prepared and the
  outside world is unchanged; transaction \<open>i\<close> and every later one are exactly as they
  were (the failing one is not formatted); and each transaction before \<open>i\<close> has been
  formatted with a signature that verified against that transaction's signable bytes. No
  transaction holds a signature that was not verified, but the transactions before the
  failing one keep the signatures attached to them.
\<close>

theorem signSwap_invalid_share:
  assumes "state this = Prepared"
    and "signer this = Some sg"
    and "commitments this = Some own"
    and "transpose_js [map Some data_commitments, map Some own] = Inr matrix"
    and "receiveCommitments E sg matrix = Inr sg1"
    and "transactions this = Some txs" and "i < length txs"
    and "signAll E (privateKey this) (computePubkey E sg1) data_shares 0 (take i txs) sg1 []
           = (Inr shares, sg2, formatted)"
    and "getSignBytes E (Some (txs ! i)) = Inr bytes"
    and "sign E sg2 (privateKey this) bytes i = Inr (share, sg3)"
    and "receiveSignatureShares E sg3 [js_get data_shares i, Some share] i = Inr (signature, sg4)"
    and "\<not> verify E sg4 bytes signature"
  shows "signSwap E data_commitments data_shares this w
           = (Inl (Error ''Provided signature shares are invalid''),
              this\<lparr>signer := Some sg4, transactions := Some (formatted @ drop i txs)\<rparr>, w)
       \<and> state (this\<lparr>signer := Some sg4, transactions := Some (formatted @ drop i txs)\<rparr>) = Prepared
       \<and> (\<exists>sigs. length sigs = i
            \<and> formatted = map2 (\<lambda>tx s. formatTx tx s (computePubkey E sg1)) (take i txs) sigs
            \<and> (\<forall>j<i. \<exists>sgj bytes. getSignBytes E (Some (txs ! j)) = Inr bytes
                      \<and> verify E sgj bytes (sigs ! j)))"
proof -
  let ?pk = "computePubkey E sg1"
  have split: "txs = take i txs @ (txs ! i # drop (Suc i) txs)"
    using assms(7) by (simp add: id_take_nth_drop [symmetric])
  have len: "length (take i txs) = i" using assms(7) by simp
  have head: "signAll E (privateKey this) ?pk data_shares i (txs ! i # drop (Suc i) txs) sg2 shares
           = (Inl (Error ''Provided signature shares are invalid''), sg4, txs ! i # drop (Suc i) txs)"
    using assms(9-12) by simp
  have "signAll E (privateKey this) ?pk data_shares 0 (take i txs @ (txs ! i # drop (Suc i) txs)) sg1 []
           = (Inl (Error ''Provided signature shares are invalid''), sg4,
              formatted @ (txs ! i # drop (Suc i) txs))"
    by (simp only: signAll_append assms(8) len add_0 head prod.case sum.case)
  with split have loop: "signAll E (privateKey this) ?pk data_shares 0 txs sg1 []
           = (Inl (Error ''Provided signature shares are invalid''), sg4, formatted @ drop i txs)"
    using assms(7) by (simp add: Cons_nth_drop_Suc)
  have run: "signSwap E data_commitments data_shares this w
           = (Inl (Error ''Provided signature shares are invalid''),
              this\<lparr>signer := Some sg4, transactions := Some (formatted @ drop i txs)\<rparr>, w)"
    using assms(1-6) loop by (simp add: signSwap_def)
  from signAll_success [OF assms(8)] obtain sigs where
    s: "length sigs = length (take i txs)"
       "formatted = map2 (\<lambda>tx s. formatTx tx s ?pk) (take i txs) sigs"
       "\<forall>j<length (take i txs). \<exists>sgj bytes. getSignBytes E (Some (take i txs ! j)) = Inr bytes
            \<and> verify E sgj bytes (sigs ! j)"
    by blast
  have "\<exists>sigs. length sigs = i
            \<and> formatted = map2 (\<lambda>tx s. formatTx tx s ?pk) (take i txs) sigs
            \<and> (\<forall>j<i. \<exists>sgj bytes. getSignBytes E (Some (txs ! j)) = Inr bytes
                      \<and> verify E sgj bytes (sigs ! j))"
    using s len by (intro exI [of _ sigs]) simp
  with run assms(1) show ?thesis by simp
qed

theorem signSwap_invalid_share_witness:
  "signSwap testE (replicate 5 [2]) [[0], [99], [2], [1], [2]] (testParty Prepared (Some testPlan)) []
     = (Inl (Error ''Provided signature shares are invalid''),
        (testParty Prepared (Some (formatTx (testPlan ! 0) [0, 0] [9] # tl testPlan)))
          \<lparr>signer := Some 5\<rparr>, [])
   \<and> verify testE 3 [0] [0, 0] \<and> \<not> verify testE 5 [1] [99, 1]"
proof -
  let ?p = "testParty Prepared (Some testPlan)"
  have a1: "state ?p = Prepared" and a2: "signer ?p = Some 0"
    and a3: "commitments ?p = Some (replicate 5 [2])"
    and a6: "transactions ?p = Some testPlan"
    by (simp_all add: testParty_def)
  have a4: "transpose_js [map Some (replicate 5 [2::nat]), map Some (replicate 5 [2])]
              = Inr (replicate 5 [Some [2], Some [2]])"
    by code_simp
  have a5: "receiveCommitments testE 0 (replicate 5 [Some [2], Some [2]]) = Inr 1"
    by (simp add: testE_def)
  have a7: "1 < length testPlan" by code_simp
  have a8: "signAll testE (privateKey ?p) (computePubkey testE 1) [[0], [99], [2], [1], [2]] 0
              (take 1 testPlan) 1 [] = (Inr [[0]], 3, [formatTx (testPlan ! 0) [0, 0] [9]])"
    by code_simp
  have a9: "getSignBytes testE (Some (testPlan ! 1)) = Inr [1]" by code_simp
  have a10: "sign testE 3 (privateKey ?p) [1] 1 = Inr ([1], 4)" by (simp add: testE_def)
  have a11: "receiveSignatureShares testE 4 [js_get [[0], [99], [2], [1], [2]] 1, Some [1]] 1
               = Inr ([99, 1], 5)"
    by (simp add: testE_def js_get_def)
  have a12: "\<not> verify testE 5 [1] [99, 1]" by (simp add: testE_def)
  have v: "verify testE 3 [0] [0, 0]" by (simp add: testE_def)
  have e: "?p\<lparr>signer := Some 5, transactions := Some ([formatTx (testPlan ! 0) [0, 0] [9]] @ drop 1 testPlan)\<rparr>
         = (testParty Prepared (Some (formatTx (testPlan ! 0) [0, 0] [9] # tl testPlan)))\<lparr>signer := Some 5\<rparr>"
    by (simp add: testParty_def drop_Suc)
  from signSwap_invalid_share [OF a1 a2 a3 a4 a5 a6 a7 a8 a9 a10 a11 a12, of "[]"]
  have "signSwap testE (replicate 5 [2]) [[0], [99], [2], [1], [2]] ?p []
     = (Inl (Error ''Provided signature shares are invalid''),
        ?p\<lparr>signer := Some 5, transactions := Some ([formatTx (testPlan ! 0) [0, 0] [9]] @ drop 1 testPlan)\<rparr>, [])"
    by blast
  with e v a12 show ?thesis by simp
qed

text \<open>
  C5 as stated has no transaction of the plan changed when verification fails. On the
  test double, with the provider's share for transaction 1 corrupted, \<open>signSwap\<close> throws
  and stays in Prepared, but transaction 0, verified and formatted before the failure,
  now carries its signature: the plan is no longer the one before the call.
\<close>

theorem signSwap_partial_mutation_counterexample:
  "fst (signSwap testE (replicate 5 [2]) [[0], [99], [2], [1], [2]]
          (testParty Prepared (Some testPlan)) [])
     = Inl (Error ''Provided signature shares are invalid'')
   \<and> state (fst (snd (signSwap testE (replicate 5 [2]) [[0], [99], [2], [1], [2]]
          (testParty Prepared (Some testPlan)) []))) = Prepared
   \<and> map tx_signature testPlan = [None, None, None, None, None]
   \<and> map_option (map tx_signature)
       (transactions (fst (snd (signSwap testE (replicate 5 [2]) [[0], [99], [2], [1], [2]]
          (testParty Prepared (Some testPlan)) []))))
     = Some [Some ([0, 0], [9]), None, None, None, None]
   \<and> transactions (fst (snd (signSwap testE (replicate 5 [2]) [[0], [99], [2], [1], [2]]
          (testParty Prepared (Some testPlan)) [])))
     \<noteq> transactions (testParty Prepared (Some testPlan))"
  by code_simp

end
